theory Spec2Isabelle
  imports Complex_Main
begin

section \<open>The TMX codec of tmxlib (fileio.py)\<close>

text \<open>
  The module is Python 2: a \<open>str\<close> is a sequence of bytes, which is what a HOL
  \<open>string\<close> is, so byte strings and markup text are both \<open>string\<close> here and
  \<open>ord\<close> is \<open>of_char\<close>. Python's integers are unbounded: \<open>int\<close>.
  Every exception the module can raise is a value of \<open>error\<close>; a function that can
  raise returns \<open>error + 'a\<close> with the exception on the left. An assertion carries the
  constant part of its message (the empty string when the \<open>assert\<close> has none).
\<close>

datatype error =
    AssertionError string
  | KeyError string
  | ValueError string
  | TypeError string
  | UnboundLocalError string
  | StructError
  | LibraryError string

definition and_then :: "error + 'a \<Rightarrow> ('a \<Rightarrow> error + 'b) \<Rightarrow> error + 'b" where
  "and_then m f = (case m of Inl e \<Rightarrow> Inl e | Inr v \<Rightarrow> f v)"

definition py_assert :: "bool \<Rightarrow> string \<Rightarrow> error + unit" where
  "py_assert b msg = (if b then Inr () else Inl (AssertionError msg))"

subsection \<open>Colour codec\<close>

text \<open>
  \<open>hex(p)\<close> of a Python int: the sign, \<open>0x\<close>, and the lowercase digits without
  padding. \<open>s.ljust(w, c)\<close> appends copies of \<open>c\<close> on the right up to width \<open>w\<close>.
  \<open>binascii.unhexlify\<close> accepts digits of either case and raises TypeError on any
  other character.
\<close>

definition hexdigit :: "nat \<Rightarrow> char" where
  "hexdigit n = ''0123456789abcdef'' ! n"

fun hex_nat :: "nat \<Rightarrow> string" where
  "hex_nat n = (if n < 16 then [hexdigit n] else hex_nat (n div 16) @ [hexdigit (n mod 16)])"

declare hex_nat.simps [simp del]

definition hex :: "int \<Rightarrow> string" where
  "hex p = (if p < 0 then ''-0x'' @ hex_nat (nat (- p)) else ''0x'' @ hex_nat (nat p))"

definition ljust :: "nat \<Rightarrow> char \<Rightarrow> string \<Rightarrow> string" where
  "ljust w c s = s @ replicate (w - length s) c"

definition to_rgb :: "int \<times> int \<times> int \<Rightarrow> string" where
  "to_rgb rgb = (case rgb of (r, g, b) \<Rightarrow>
     concat (map (\<lambda>p. ljust 2 (CHR ''0'') (drop 2 (hex p))) [r, g, b]))"

definition unhex_digit :: "char \<Rightarrow> int option" where
  "unhex_digit c =
     (let n = (of_char c :: int) in
      if 48 \<le> n \<and> n \<le> 57 then Some (n - 48)
      else if 97 \<le> n \<and> n \<le> 102 then Some (n - 87)
      else if 65 \<le> n \<and> n \<le> 70 then Some (n - 55)
      else None)"

definition unhexlify_ord :: "char \<Rightarrow> char \<Rightarrow> error + int" where
  "unhexlify_ord a b =
     (case (unhex_digit a, unhex_digit b) of
        (Some h, Some l) \<Rightarrow> Inr (16 * h + l)
      | _ \<Rightarrow> Inl (TypeError ''Non-hexadecimal digit found''))"

definition from_rgb :: "string \<Rightarrow> error + (int \<times> int \<times> int)" where
  "from_rgb string0 =
     (let s = (if string0 \<noteq> [] \<and> hd string0 = CHR ''#'' then tl string0 else string0) in
      and_then
        (if length s = 3 then Inr ((s ! 0, s ! 0), (s ! 1, s ! 1), (s ! 2, s ! 2))
         else if length s = 6 then Inr ((s ! 0, s ! 1), (s ! 2, s ! 3), (s ! 4, s ! 5))
         else Inl (UnboundLocalError ''parts''))
        (\<lambda>(p1, p2, p3).
           and_then (unhexlify_ord (fst p1) (snd p1)) (\<lambda>r.
           and_then (unhexlify_ord (fst p2) (snd p2)) (\<lambda>g.
           and_then (unhexlify_ord (fst p3) (snd p3)) (\<lambda>b.
           Inr (r, g, b))))))"

subsection \<open>Python builtins: \<open>int()\<close> and \<open>str()\<close> on integers\<close>

text \<open>
  \<open>int(s)\<close> strips surrounding whitespace, accepts one optional sign and then needs a
  non-empty run of decimal digits; anything else is a ValueError. \<open>str(i)\<close> is the
  decimal numeral with a leading minus sign for a negative number.
\<close>

definition is_space :: "char \<Rightarrow> bool" where
  "is_space c = (c \<in> set [CHR '' '', CHR 0x09, CHR 0x0A, CHR 0x0B, CHR 0x0C, CHR 0x0D])"

definition strip :: "string \<Rightarrow> string" where
  "strip s = rev (dropWhile is_space (rev (dropWhile is_space s)))"

definition is_digit :: "char \<Rightarrow> bool" where
  "is_digit c = (48 \<le> (of_char c :: nat) \<and> (of_char c :: nat) \<le> 57)"

definition digit_val :: "char \<Rightarrow> nat" where
  "digit_val c = of_char c - 48"

definition digits_val :: "string \<Rightarrow> nat" where
  "digits_val ds = foldl (\<lambda>a c. 10 * a + digit_val c) 0 ds"

definition py_int :: "string \<Rightarrow> error + int" where
  "py_int s0 =
     (let s = strip s0;
          neg = (s \<noteq> [] \<and> hd s = CHR ''-'');
          ds = (if s \<noteq> [] \<and> (hd s = CHR ''-'' \<or> hd s = CHR ''+'') then tl s else s)
      in if ds \<noteq> [] \<and> list_all is_digit ds
         then Inr (if neg then - int (digits_val ds) else int (digits_val ds))
         else Inl (ValueError ''invalid literal for int()''))"

definition digit_char :: "nat \<Rightarrow> char" where
  "digit_char n = char_of (48 + n)"

fun str_nat :: "nat \<Rightarrow> string" where
  "str_nat n = (if n < 10 then [digit_char n] else str_nat (n div 10) @ [digit_char (n mod 10)])"

declare str_nat.simps [simp del]

definition str_int :: "int \<Rightarrow> string" where
  "str_int i = (if i < 0 then CHR ''-'' # str_nat (nat (- i)) else str_nat (nat i))"

subsection \<open>Dictionaries and markup nodes\<close>

text \<open>
  A Python dict is an association list with pairwise distinct keys, held in the dict's
  iteration order: \<open>d[k] = v\<close> replaces the value of a key that is present and appends a
  new key; \<open>d.pop(k)\<close> raises KeyError on a missing key; \<open>d.pop(k, default)\<close> does not.
  An lxml element has a tag, an attribute dict, its child elements in document order
  and an optional text. The readers pop attributes off the element; here the attribute
  dict that is left is passed along.
\<close>

fun dict_set :: "'k \<Rightarrow> 'v \<Rightarrow> ('k \<times> 'v) list \<Rightarrow> ('k \<times> 'v) list" where
  "dict_set k v [] = [(k, v)]"
| "dict_set k v (p # ps) = (if fst p = k then (k, v) # ps else p # dict_set k v ps)"

definition dict_update :: "('k \<times> 'v) list \<Rightarrow> ('k \<times> 'v) list \<Rightarrow> ('k \<times> 'v) list" where
  "dict_update d other = foldl (\<lambda>acc kv. dict_set (fst kv) (snd kv) acc) d other"

definition dict_del :: "'k \<Rightarrow> ('k \<times> 'v) list \<Rightarrow> ('k \<times> 'v) list" where
  "dict_del k d = filter (\<lambda>p. fst p \<noteq> k) d"

definition pop :: "string \<Rightarrow> (string \<times> string) list \<Rightarrow> error + (string \<times> (string \<times> string) list)" where
  "pop k d = (case map_of d k of None \<Rightarrow> Inl (KeyError k) | Some v \<Rightarrow> Inr (v, dict_del k d))"

definition pop_default :: "string \<Rightarrow> (string \<times> string) list \<Rightarrow> string option \<times> (string \<times> string) list" where
  "pop_default k d = (map_of d k, dict_del k d)"

datatype element =
  Element (tag: string) (attrib: "(string \<times> string) list") (children: "element list")
    (elem_text: "string option")

definition append_child :: "element \<Rightarrow> element \<Rightarrow> element" where
  "append_child parent child =
     Element (tag parent) (attrib parent) (children parent @ [child]) (elem_text parent)"

definition set_attrib :: "string \<Rightarrow> string \<Rightarrow> element \<Rightarrow> element" where
  "set_attrib k v e = Element (tag e) (dict_set k v (attrib e)) (children e) (elem_text e)"

subsection \<open>Property bags\<close>

type_synonym props = "(string \<times> string) list"

fun read_property_children :: "element list \<Rightarrow> props \<Rightarrow> error + props" where
  "read_property_children [] properties = Inr properties"
| "read_property_children (prop # rest) properties =
     and_then (py_assert (tag prop = ''property'') []) (\<lambda>_.
     and_then (pop ''name'' (attrib prop)) (\<lambda>(name, a1).
     and_then (pop ''value'' a1) (\<lambda>(val, a2).
     and_then (py_assert (a2 = []) ''Unexpected property attributes'') (\<lambda>_.
     read_property_children rest (dict_set name val properties)))))"

definition read_properties :: "element \<Rightarrow> error + props" where
  "read_properties elem =
     and_then (py_assert (tag elem = ''properties'') []) (\<lambda>_.
     and_then (py_assert (attrib elem = []) ''Unexpected properties attributes'') (\<lambda>_.
     read_property_children (children elem) []))"

definition property_element :: "string \<times> string \<Rightarrow> element" where
  "property_element kv =
     Element ''property'' [(''name'', fst kv), (''value'', snd kv)] [] None"

definition append_properties :: "element \<Rightarrow> props \<Rightarrow> element" where
  "append_properties parent props =
     (if props \<noteq> []
      then append_child parent (Element ''properties'' [] (map property_element props) None)
      else parent)"

subsection \<open>The document model\<close>

text \<open>
  The classes \<open>tmxlib.Map\<close>, \<open>Tileset\<close>, \<open>Image\<close>, \<open>ArrayMapLayer\<close>, \<open>ObjectLayer\<close> and
  \<open>MapObject\<close> are declared outside fileio.py; the records below hold the fields
  fileio.py reads and writes, with the types and defaults of the specification's data
  model. A \<open>width\<close>/\<open>height\<close> attribute of a class is the component of its size pair.
  A tileset carries \<open>source\<close> (\<open>None\<close> for an embedded one) and the attribute
  \<open>_read_first_gid\<close> that only the reader sets. A layer attribute read with
  \<open>getattr(layer, name, default)\<close> can be unset, \<open>None\<close> or a string. Opacity is a
  Python float: finite doubles are reals, and parsing and printing them is the
  library's business.
\<close>

record image =
  img_source :: string
  img_size :: "int \<times> int"
  img_trans :: "(int \<times> int \<times> int) option"

record tileset =
  ts_name :: string
  ts_tile_size :: "int \<times> int"
  ts_margin :: int
  ts_spacing :: int
  ts_image :: "image option"
  ts_tile_properties :: "(int \<times> props) list"
  ts_source :: "string option"
  ts_read_first_gid :: "int option"

record map_object =
  mo_pos :: "int \<times> int"
  mo_size :: "int \<times> int"
  mo_value :: "int option"
  mo_name :: "string option"
  mo_type :: "string option"

datatype pyattr = Unset | PyNone | PyStr string

record tile_layer =
  tl_name :: string
  tl_opacity :: real
  tl_visible :: bool
  tl_properties :: props
  tl_data :: "int list"
  tl_encoding :: pyattr
  tl_compression :: pyattr
  tl_mtime :: "int option"

record object_layer =
  ol_name :: string
  ol_opacity :: real
  ol_visible :: bool
  ol_properties :: props
  ol_objects :: "map_object list"

datatype layer = TileLayer tile_layer | ObjectLayer object_layer | OtherLayer string

record tmx_map =
  map_size :: "int \<times> int"
  map_tile_size :: "int \<times> int"
  map_orientation :: string
  map_base_path :: "string option"
  map_properties :: props
  map_tilesets :: "tileset list"
  map_layers :: "layer list"

text \<open>
  What fileio.py calls and does not define is a parameter of the model: the standard
  library's base64, zlib and gzip codecs (a decoder can raise), \<open>float()\<close> and \<open>str()\<close>
  on floats, \<open>Tileset.open\<close> (which reads a file), \<open>len(tileset)\<close> (the number of tiles)
  and \<open>object.tileset_tile.size\<close> (the size of the tile an object's gid refers to in its
  map, if any). \<open>gzip_compress t d\<close> is what \<open>GzipFile(mode='wb', mtime=t)\<close> holds after
  writing \<open>d\<close> and closing, for a modification time \<open>t\<close> that its header can hold.
\<close>

record library =
  b64encode :: "string \<Rightarrow> string"
  b64decode :: "string \<Rightarrow> error + string"
  zlib_compress :: "string \<Rightarrow> string"
  zlib_decompress :: "string \<Rightarrow> error + string"
  gzip_compress :: "int \<Rightarrow> string \<Rightarrow> string"
  gzip_decompress :: "string \<Rightarrow> error + string"
  float_of_str :: "string \<Rightarrow> error + real"
  str_of_float :: "real \<Rightarrow> string"
  open_tileset :: "string \<Rightarrow> error + tileset"
  len_tileset :: "tileset \<Rightarrow> int"
  tileset_tile_size :: "tileset list \<Rightarrow> int option \<Rightarrow> (int \<times> int) option"

text \<open>
  Modelled from the spec: \<open>tileset.first_gid(map)\<close> is declared outside fileio.py. The
  first global tile ID of the tileset at position \<open>i\<close> of a map's tileset sequence is the
  running sum of the tile counts of all preceding tilesets, offset by 1.
\<close>

definition first_gid :: "library \<Rightarrow> tileset list \<Rightarrow> nat \<Rightarrow> int" where
  "first_gid lib tilesets i = 1 + sum_list (map (len_tileset lib) (take i tilesets))"

definition int_default :: "int \<Rightarrow> string option \<Rightarrow> error + int" where
  "int_default d a = (case a of None \<Rightarrow> Inr d | Some s \<Rightarrow> py_int s)"

definition truthy :: "string option \<Rightarrow> bool" where
  "truthy a = (case a of None \<Rightarrow> False | Some s \<Rightarrow> s \<noteq> [])"

subsection \<open>Image codec\<close>

definition read_image :: "element \<Rightarrow> error + image" where
  "read_image elem =
     (case pop_default ''trans'' (attrib elem) of (trans0, a0) \<Rightarrow>
      and_then (case trans0 of
                  None \<Rightarrow> Inr None
                | Some t \<Rightarrow> if t \<noteq> [] then and_then (from_rgb t) (\<lambda>c. Inr (Some c))
                            else Inr None) (\<lambda>trans.
      and_then (pop ''source'' a0) (\<lambda>(source, a1).
      case pop_default ''width'' a1 of (w0, a2) \<Rightarrow>
      and_then (int_default 0 w0) (\<lambda>w.
      case pop_default ''height'' a2 of (h0, a3) \<Rightarrow>
      and_then (int_default 0 h0) (\<lambda>h.
      and_then (py_assert (a3 = []) ''Unexpected image attributes'') (\<lambda>_.
      Inr \<lparr>img_source = source, img_size = (w, h), img_trans = trans\<rparr>))))))"

definition write_image :: "image \<Rightarrow> element" where
  "write_image img =
     (let element = Element ''image'' [(''source'', img_source img)] [] None;
          element = (if snd (img_size img) \<noteq> 0
                     then set_attrib ''height'' (str_int (snd (img_size img))) element
                     else element);
          element = (if fst (img_size img) \<noteq> 0
                     then set_attrib ''width'' (str_int (fst (img_size img))) element
                     else element)
      in case img_trans img of
           None \<Rightarrow> element
         | Some rgb \<Rightarrow> set_attrib ''trans'' (to_rgb rgb) element)"

subsection \<open>Tileset codec\<close>

text \<open>
  \<open>os.path\<close> is POSIX's. A new tileset has no image, no tile properties and no source;
  \<open>tileset.tile_properties[id]\<close> is the bag recorded for the tile, an empty one the
  first time.
\<close>

definition path_isabs :: "string \<Rightarrow> bool" where
  "path_isabs s = (s \<noteq> [] \<and> hd s = CHR ''/'')"

definition path_join :: "string \<Rightarrow> string \<Rightarrow> string" where
  "path_join a b =
     (if path_isabs b then b
      else if a = [] \<or> last a = CHR ''/'' then a @ b
      else a @ ''/'' @ b)"

definition tile_props :: "int \<Rightarrow> (int \<times> props) list \<Rightarrow> props" where
  "tile_props i tp = (case map_of tp i of None \<Rightarrow> [] | Some p \<Rightarrow> p)"

fun read_tile_children :: "element list \<Rightarrow> int \<Rightarrow> tileset \<Rightarrow> error + tileset" where
  "read_tile_children [] i tileset = Inr tileset"
| "read_tile_children (subsubelem # rest) i tileset =
     (if tag subsubelem = ''properties''
      then and_then (read_properties subsubelem) (\<lambda>new.
           read_tile_children rest i
             (tileset\<lparr>ts_tile_properties :=
                dict_set i (dict_update (tile_props i (ts_tile_properties tileset)) new)
                  (ts_tile_properties tileset)\<rparr>))
      else Inl (AssertionError ''Unknown tag''))"

fun read_tileset_children :: "element list \<Rightarrow> tileset \<Rightarrow> error + tileset" where
  "read_tileset_children [] tileset = Inr tileset"
| "read_tileset_children (subelem # rest) tileset =
     (if tag subelem = ''image''
      then and_then (py_assert (ts_image tileset = None) []) (\<lambda>_.
           and_then (read_image subelem) (\<lambda>img.
           read_tileset_children rest (tileset\<lparr>ts_image := Some img\<rparr>)))
      else if tag subelem = ''tile''
      then and_then (pop ''id'' (attrib subelem)) (\<lambda>(ids, _).
           and_then (py_int ids) (\<lambda>i.
           and_then (read_tile_children (children subelem) i tileset) (\<lambda>tileset'.
           read_tileset_children rest tileset')))
      else Inl (AssertionError ''Unknown tag''))"

definition read_tileset :: "library \<Rightarrow> element \<Rightarrow> string option \<Rightarrow> error + tileset" where
  "read_tileset lib elem base_path =
     (case pop_default ''source'' (attrib elem) of (source, a0) \<Rightarrow>
      if truthy source then
        (let src = the source in
         if base_path = None \<and> \<not> path_isabs src
         then Inl (ValueError ''Cannot load external tileset from relative path'')
         else
           (let real_source = (if truthy base_path then path_join (the base_path) src else src) in
            and_then (pop ''firstgid'' a0) (\<lambda>(fg, a1).
            and_then (py_int fg) (\<lambda>fgid.
            and_then (py_assert (a1 = []) ''Unexpected tileset attributes'') (\<lambda>_.
            and_then (open_tileset lib real_source) (\<lambda>tileset.
            Inr (tileset\<lparr>ts_read_first_gid := Some fgid, ts_source := Some src\<rparr>)))))))
      else
        and_then (pop ''name'' a0) (\<lambda>(name, a1).
        and_then (pop ''tilewidth'' a1) (\<lambda>(tw, a2).
        and_then (py_int tw) (\<lambda>tilewidth.
        and_then (pop ''tileheight'' a2) (\<lambda>(th, a3).
        and_then (py_int th) (\<lambda>tileheight.
        case pop_default ''margin'' a3 of (m0, a4) \<Rightarrow>
        and_then (int_default 0 m0) (\<lambda>margin.
        case pop_default ''spacing'' a4 of (s0, a5) \<Rightarrow>
        and_then (int_default 0 s0) (\<lambda>spacing.
        case pop_default ''firstgid'' a5 of (f0, a6) \<Rightarrow>
        and_then (int_default 0 f0) (\<lambda>read_first_gid.
        and_then (py_assert (a6 = []) ''Unexpected tileset attributes'') (\<lambda>_.
        read_tileset_children (children elem)
          \<lparr>ts_name = name, ts_tile_size = (tilewidth, tileheight), ts_margin = margin,
           ts_spacing = spacing, ts_image = None, ts_tile_properties = [],
           ts_source = None, ts_read_first_gid = Some read_first_gid\<rparr>))))))))))"

definition int_truthy :: "int option \<Rightarrow> bool" where
  "int_truthy a = (case a of None \<Rightarrow> False | Some i \<Rightarrow> i \<noteq> 0)"

definition tile_element :: "int \<times> props \<Rightarrow> element" where
  "tile_element tp =
     append_properties (Element ''tile'' [(''id'', str_int (fst tp))] [] None) (snd tp)"

definition write_tileset :: "tileset \<Rightarrow> int option \<Rightarrow> element" where
  "write_tileset tileset fgid =
     (case ts_source tileset of
        Some src \<Rightarrow>
          (let attrib0 = [(''source'', src)];
               attrib1 = (if int_truthy fgid
                          then dict_set ''firstgid'' (str_int (the fgid)) attrib0
                          else attrib0)
           in Element ''tileset'' attrib1 [] None)
      | None \<Rightarrow>
          (let attrib0 = [(''name'', ts_name tileset),
                          (''tileheight'', str_int (snd (ts_tile_size tileset))),
                          (''tilewidth'', str_int (fst (ts_tile_size tileset)))];
               attrib1 = (if int_truthy fgid
                          then dict_set ''firstgid'' (str_int (the fgid)) attrib0
                          else attrib0);
               element = Element ''tileset'' attrib1 [] None;
               element = (if ts_spacing tileset \<noteq> 0
                          then set_attrib ''spacing'' (str_int (ts_spacing tileset)) element
                          else element);
               element = (if ts_margin tileset \<noteq> 0
                          then set_attrib ''margin'' (str_int (ts_margin tileset)) element
                          else element);
               element = (case ts_image tileset of
                            None \<Rightarrow> element
                          | Some img \<Rightarrow> append_child element (write_image img))
           in foldl append_child element
                (map tile_element
                   (filter (\<lambda>tp. snd tp \<noteq> [])
                      (sort_key fst (ts_tile_properties tileset))))))"

subsection \<open>Tile-layer binary pipeline\<close>

text \<open>
  \<open>data[x::4]\<close> takes every fourth byte from position \<open>x\<close> on, and \<open>zip\<close> stops at
  the shortest of its arguments. \<open>array.array('l', ...)\<close> holds C longs; they are taken
  to be 64 bits wide, so that every sum of four shifted bytes fits.
  \<open>struct.pack('<nI', ...)\<close> raises \<open>struct.error\<close> unless every item is in the range
  of an unsigned 32-bit integer. \<open>decode_data\<close> is the part of the \<open>data\<close> branch of
  \<open>tile_layer_from_element\<close> that yields the bytes after transport decoding and
  decompression; \<open>read_data\<close> reinterprets them as tile IDs.
  \<open>GzipFile(fileobj=io, mode='wb', mtime=t)\<close> writes the stream's header when it is
  built: the modification time, the clock's when \<open>t\<close> is \<open>None\<close>, goes through
  \<open>struct.pack('<L', ...)\<close>, which raises \<open>struct.error\<close> outside the unsigned 32-bit
  range. \<open>gzip_file\<close> is that step up to \<open>io.getvalue()\<close>, \<open>now\<close> being the clock.
\<close>

fun stride4 :: "'a list \<Rightarrow> 'a list" where
  "stride4 [] = []"
| "stride4 (a # as) = a # stride4 (drop 3 as)"

definition slice_from :: "nat \<Rightarrow> 'a list \<Rightarrow> 'a list" where
  "slice_from x data = stride4 (drop x data)"

definition tile_of_bytes :: "char \<times> char \<times> char \<times> char \<Rightarrow> int" where
  "tile_of_bytes q = (case q of (a, b, c, d) \<Rightarrow>
     of_char a + push_bit 8 (of_char b) + push_bit 16 (of_char c) + push_bit 24 (of_char d))"

definition unpack_tiles :: "string \<Rightarrow> int list" where
  "unpack_tiles data =
     map tile_of_bytes
       (zip (slice_from 0 data) (zip (slice_from 1 data)
          (zip (slice_from 2 data) (slice_from 3 data))))"

definition pack_u32 :: "int \<Rightarrow> string" where
  "pack_u32 v = [char_of v, char_of (v div 256), char_of (v div 65536), char_of (v div 16777216)]"

definition struct_pack :: "int list \<Rightarrow> error + string" where
  "struct_pack data =
     (if list_all (\<lambda>v. 0 \<le> v \<and> v < 4294967296) data
      then Inr (concat (map pack_u32 data))
      else Inl StructError)"

definition gzip_mtime :: "int \<Rightarrow> int option \<Rightarrow> int" where
  "gzip_mtime now mtime = (case mtime of None \<Rightarrow> now | Some t \<Rightarrow> t)"

definition gzip_file :: "library \<Rightarrow> int \<Rightarrow> int option \<Rightarrow> string \<Rightarrow> error + string" where
  "gzip_file lib now mtime data =
     (if 0 \<le> gzip_mtime now mtime \<and> gzip_mtime now mtime < 4294967296
      then Inr (gzip_compress lib (gzip_mtime now mtime) data)
      else Inl StructError)"

definition getattr :: "pyattr \<Rightarrow> pyattr \<Rightarrow> pyattr" where
  "getattr a d = (case a of Unset \<Rightarrow> d | _ \<Rightarrow> a)"

definition attr_truthy :: "pyattr \<Rightarrow> bool" where
  "attr_truthy a = (case a of PyStr s \<Rightarrow> s \<noteq> [] | _ \<Rightarrow> False)"

definition attr_str :: "pyattr \<Rightarrow> string" where
  "attr_str a = (case a of PyStr s \<Rightarrow> s | _ \<Rightarrow> [])"

definition decode_data :: "library \<Rightarrow> element \<Rightarrow> error + (string \<times> pyattr)" where
  "decode_data lib subelem =
     and_then (pop ''encoding'' (attrib subelem)) (\<lambda>(encoding, a1).
     and_then
       (if encoding = ''base64''
        then (case elem_text subelem of
                None \<Rightarrow> Inl (TypeError ''must be string or buffer, not None'')
              | Some t \<Rightarrow> b64decode lib t)
        else Inl (AssertionError ''Bad encoding'')) (\<lambda>raw.
     case pop_default ''compression'' a1 of (compression, a2) \<Rightarrow>
       if compression = Some ''gzip''
       then and_then (gzip_decompress lib raw) (\<lambda>d. Inr (d, PyStr ''gzip''))
       else if compression = Some ''zlib''
       then and_then (zlib_decompress lib raw) (\<lambda>d. Inr (d, PyStr ''zlib''))
       else if truthy compression
       then Inl (AssertionError ''Bad compression'')
       else Inr (raw, PyNone)))"

definition read_data :: "library \<Rightarrow> element \<Rightarrow> error + (int list \<times> pyattr \<times> pyattr)" where
  "read_data lib subelem =
     and_then (decode_data lib subelem) (\<lambda>(data, comp).
     Inr (unpack_tiles data, PyStr ''base64'', comp))"

fun read_tile_layer_children ::
  "library \<Rightarrow> element list \<Rightarrow> tile_layer \<times> bool \<Rightarrow> error + (tile_layer \<times> bool)" where
  "read_tile_layer_children lib [] st = Inr st"
| "read_tile_layer_children lib (subelem # rest) st =
     (if tag subelem = ''properties''
      then and_then (read_properties subelem) (\<lambda>new.
           read_tile_layer_children lib rest
             ((fst st)\<lparr>tl_properties := dict_update (tl_properties (fst st)) new\<rparr>, snd st))
      else if tag subelem = ''data''
      then and_then (py_assert (\<not> snd st) []) (\<lambda>_.
           and_then (read_data lib subelem) (\<lambda>(data, enc, comp).
           read_tile_layer_children lib rest
             ((fst st)\<lparr>tl_data := data, tl_encoding := enc, tl_compression := comp\<rparr>, True)))
      else Inl (AssertionError ''Unknown tag''))"

definition read_layer_attrib ::
  "library \<Rightarrow> element \<Rightarrow> tmx_map \<Rightarrow> string \<Rightarrow> error + (string \<times> real \<times> bool)" where
  "read_layer_attrib lib elem m msg =
     and_then (pop ''name'' (attrib elem)) (\<lambda>(name, a1).
     case pop_default ''opacity'' a1 of (o0, a2) \<Rightarrow>
     and_then (case o0 of None \<Rightarrow> Inr 1 | Some s \<Rightarrow> float_of_str lib s) (\<lambda>opacity.
     case pop_default ''visible'' a2 of (v0, a3) \<Rightarrow>
     and_then (int_default 1 v0) (\<lambda>visible.
     and_then (pop ''width'' a3) (\<lambda>(w, a4).
     and_then (py_int w) (\<lambda>width.
     and_then (pop ''height'' a4) (\<lambda>(h, a5).
     and_then (py_int h) (\<lambda>height.
     and_then (py_assert ((width, height) = map_size m) []) (\<lambda>_.
     and_then (py_assert (a5 = []) msg) (\<lambda>_.
     Inr (name, opacity, visible \<noteq> 0))))))))))"

definition tile_layer_from_element :: "library \<Rightarrow> element \<Rightarrow> tmx_map \<Rightarrow> error + tile_layer" where
  "tile_layer_from_element lib elem m =
     and_then (read_layer_attrib lib elem m ''Unexpected tile layer attributes'')
       (\<lambda>(name, opacity, visible).
     and_then (read_tile_layer_children lib (children elem)
         (\<lparr>tl_name = name, tl_opacity = opacity, tl_visible = visible, tl_properties = [],
           tl_data = [], tl_encoding = Unset, tl_compression = Unset, tl_mtime = None\<rparr>,
          False)) (\<lambda>st.
     and_then (py_assert (snd st) []) (\<lambda>_.
     Inr (fst st))))"

definition layer_element :: "library \<Rightarrow> string \<Rightarrow> tmx_map \<Rightarrow> string \<Rightarrow> bool \<Rightarrow> real \<Rightarrow> element" where
  "layer_element lib t m name visible opacity =
     (let element = Element t [(''name'', name),
                                (''width'', str_int (fst (map_size m))),
                                (''height'', str_int (snd (map_size m)))] [] None;
          element = (if \<not> visible then set_attrib ''visible'' ''0'' element else element)
      in if opacity \<noteq> 1 then set_attrib ''opacity'' (str_of_float lib opacity) element
         else element)"

definition tile_layer_to_element :: "library \<Rightarrow> int \<Rightarrow> tmx_map \<Rightarrow> tile_layer \<Rightarrow> error + element" where
  "tile_layer_to_element lib now m layer =
     (let element = layer_element lib ''layer'' m (tl_name layer) (tl_visible layer)
                      (tl_opacity layer);
          element = append_properties element (tl_properties layer)
      in and_then (struct_pack (tl_data layer)) (\<lambda>data.
         let compression = getattr (tl_compression layer) (PyStr ''zlib'');
             encoding = getattr (tl_encoding layer) (PyStr ''base64'');
             extra_attrib = [];
             extra_attrib = (if attr_truthy compression
                             then dict_set ''compression'' (attr_str compression) extra_attrib
                             else extra_attrib);
             extra_attrib = (if attr_truthy encoding
                             then dict_set ''encoding'' (attr_str encoding) extra_attrib
                             else extra_attrib)
         in and_then
              (if compression = PyStr ''gzip''
               then and_then (gzip_file lib now (tl_mtime layer) data) (\<lambda>data.
                      Inr (data, extra_attrib))
               else if compression = PyStr ''zlib''
               then Inr (zlib_compress lib data, dict_set ''compression'' ''zlib'' extra_attrib)
               else if attr_truthy compression
               then Inl (ValueError ''Bad compression: %s'')
               else Inr (data, extra_attrib)) (\<lambda>(data, extra_attrib).
            if encoding = PyStr ''base64''
            then Inr (append_child element
                   (Element ''data'' (dict_set ''encoding'' ''base64'' extra_attrib) []
                      (Some (b64encode lib data))))
            else Inl (ValueError ''Bad encoding: %s''))))"

subsection \<open>Object-layer codec\<close>

text \<open>
  A \<open>MapObject\<close> built without a \<open>size\<close>, \<open>value\<close>, \<open>name\<close> or \<open>type\<close> argument has the
  data model's default: size \<open>(0, 0)\<close> and no gid, name or type. Children of an
  \<open>objectgroup\<close> other than \<open>properties\<close> and \<open>object\<close> are skipped: the loop has no
  final \<open>else\<close>.
\<close>

definition read_object :: "element \<Rightarrow> error + map_object" where
  "read_object subelem =
     and_then (pop ''x'' (attrib subelem)) (\<lambda>(xs, a1).
     and_then (py_int xs) (\<lambda>x.
     and_then (pop ''y'' a1) (\<lambda>(ys, a2).
     and_then (py_int ys) (\<lambda>y.
     case pop_default ''gid'' a2 of (gid, a3) \<Rightarrow>
     and_then (case gid of None \<Rightarrow> Inr None
               | Some s \<Rightarrow> and_then (py_int s) (\<lambda>v. Inr (Some v))) (\<lambda>val.
     case pop_default ''name'' a3 of (name, a4) \<Rightarrow>
     case pop_default ''type'' a4 of (type, a5) \<Rightarrow>
     case pop_default ''width'' a5 of (width, a6) \<Rightarrow>
     case pop_default ''height'' a6 of (height, a7) \<Rightarrow>
     and_then
       (if width \<noteq> None \<or> height \<noteq> None
        then (case width of
                None \<Rightarrow> Inl (TypeError ''int() argument must be a string or a number'')
              | Some ws \<Rightarrow> and_then (py_int ws) (\<lambda>w.
                  (case height of
                     None \<Rightarrow> Inl (TypeError ''int() argument must be a string or a number'')
                   | Some hs \<Rightarrow> and_then (py_int hs) (\<lambda>h. Inr (w, h)))))
        else Inr (0, 0)) (\<lambda>sz.
     and_then (py_assert (a7 = []) ''Unexpected object attributes'') (\<lambda>_.
     Inr \<lparr>mo_pos = (x, y), mo_size = sz, mo_value = val, mo_name = name,
          mo_type = type\<rparr>)))))))"

fun read_object_layer_children :: "element list \<Rightarrow> object_layer \<Rightarrow> error + object_layer" where
  "read_object_layer_children [] layer = Inr layer"
| "read_object_layer_children (subelem # rest) layer =
     (if tag subelem = ''properties''
      then and_then (read_properties subelem) (\<lambda>new.
           read_object_layer_children rest
             (layer\<lparr>ol_properties := dict_update (ol_properties layer) new\<rparr>))
      else if tag subelem = ''object''
      then and_then (read_object subelem) (\<lambda>obj.
           read_object_layer_children rest (layer\<lparr>ol_objects := ol_objects layer @ [obj]\<rparr>))
      else read_object_layer_children rest layer)"

definition object_layer_from_element :: "library \<Rightarrow> element \<Rightarrow> tmx_map \<Rightarrow> error + object_layer" where
  "object_layer_from_element lib elem m =
     and_then (read_layer_attrib lib elem m ''Unexpected object layer attributes'')
       (\<lambda>(name, opacity, visible).
     read_object_layer_children (children elem)
       \<lparr>ol_name = name, ol_opacity = opacity, ol_visible = visible, ol_properties = [],
        ol_objects = []\<rparr>)"

definition object_element :: "library \<Rightarrow> tmx_map \<Rightarrow> map_object \<Rightarrow> element" where
  "object_element lib m obj =
     (let attrib0 = [(''x'', str_int (fst (mo_pos obj))), (''y'', str_int (snd (mo_pos obj)))];
          attrib1 = (if int_truthy (mo_value obj)
                     then dict_set ''gid'' (str_int (the (mo_value obj))) attrib0 else attrib0);
          attrib2 = (if truthy (mo_name obj)
                     then dict_set ''name'' (the (mo_name obj)) attrib1 else attrib1);
          attrib3 = (if truthy (mo_type obj)
                     then dict_set ''type'' (the (mo_type obj)) attrib2 else attrib2);
          attrib4 = (if mo_size obj \<noteq> (0, 0) \<and>
                        \<not> (tileset_tile_size lib (map_tilesets m) (mo_value obj) = Some (mo_size obj))
                     then dict_set ''height'' (str_int (snd (mo_size obj)))
                            (dict_set ''width'' (str_int (fst (mo_size obj))) attrib3)
                     else attrib3)
      in Element ''object'' attrib4 [] None)"

definition object_layer_to_element :: "library \<Rightarrow> tmx_map \<Rightarrow> object_layer \<Rightarrow> element" where
  "object_layer_to_element lib m layer =
     (let element = layer_element lib ''objectgroup'' m (ol_name layer) (ol_visible layer)
                      (ol_opacity layer);
          element = append_properties element (ol_properties layer)
      in foldl append_child element (map (object_element lib m) (ol_objects layer)))"

definition layer_to_element :: "library \<Rightarrow> int \<Rightarrow> tmx_map \<Rightarrow> layer \<Rightarrow> error + element" where
  "layer_to_element lib now m layer =
     (case layer of
        ObjectLayer l \<Rightarrow> Inr (object_layer_to_element lib m l)
      | TileLayer l \<Rightarrow> tile_layer_to_element lib now m l
      | OtherLayer t \<Rightarrow> Inl (ValueError t))"

subsection \<open>Document codec\<close>

text \<open>
  \<open>read_map_attrib\<close> is \<open>read_map\<close> up to the construction of the map from the
  node's attributes; \<open>read_map_children\<close> is its loop over the children.
  \<open>read_map\<close> appends each tileset to the map and then asserts that its first global
  tile ID in the map, which is then the one of the last position, is the one read from
  the markup. \<open>write_map\<close> takes the clock as the function \<open>clock\<close>: \<open>clock i\<close> is what
  \<open>time.time()\<close> returns while the layer at position \<open>i\<close> is written (a gzip stream
  without a given \<open>mtime\<close> is stamped with it).
\<close>

fun read_map_children ::
  "library \<Rightarrow> string option \<Rightarrow> element list \<Rightarrow> tmx_map \<Rightarrow> error + tmx_map" where
  "read_map_children lib base_path [] m = Inr m"
| "read_map_children lib base_path (elem # rest) m =
     (if tag elem = ''properties''
      then and_then (read_properties elem) (\<lambda>new.
           read_map_children lib base_path rest
             (m\<lparr>map_properties := dict_update (map_properties m) new\<rparr>))
      else if tag elem = ''tileset''
      then and_then (read_tileset lib elem base_path) (\<lambda>tileset.
           and_then (py_assert
               (Some (first_gid lib (map_tilesets m @ [tileset]) (length (map_tilesets m)))
                  = ts_read_first_gid tileset) []) (\<lambda>_.
           read_map_children lib base_path rest
             (m\<lparr>map_tilesets := map_tilesets m @ [tileset]\<rparr>)))
      else if tag elem = ''layer''
      then and_then (tile_layer_from_element lib elem m) (\<lambda>l.
           read_map_children lib base_path rest
             (m\<lparr>map_layers := map_layers m @ [TileLayer l]\<rparr>))
      else if tag elem = ''objectgroup''
      then and_then (object_layer_from_element lib elem m) (\<lambda>l.
           read_map_children lib base_path rest
             (m\<lparr>map_layers := map_layers m @ [ObjectLayer l]\<rparr>))
      else Inl (AssertionError ''Unknown tag''))"

definition read_map_attrib :: "element \<Rightarrow> string option \<Rightarrow> error + tmx_map" where
  "read_map_attrib root_elem base_path =
     and_then (py_assert (tag root_elem = ''map'') []) (\<lambda>_.
     and_then (pop ''version'' (attrib root_elem)) (\<lambda>(version, a1).
     and_then (py_assert (version = ''1.0'') ''Bad TMX file version'') (\<lambda>_.
     and_then (pop ''width'' a1) (\<lambda>(w, a2).
     and_then (py_int w) (\<lambda>width.
     and_then (pop ''height'' a2) (\<lambda>(h, a3).
     and_then (py_int h) (\<lambda>height.
     and_then (pop ''tilewidth'' a3) (\<lambda>(tw, a4).
     and_then (py_int tw) (\<lambda>tilewidth.
     and_then (pop ''tileheight'' a4) (\<lambda>(th, a5).
     and_then (py_int th) (\<lambda>tileheight.
     and_then (pop ''orientation'' a5) (\<lambda>(orientation, a6).
     and_then (py_assert (a6 = []) ''Unexpected map attributes'') (\<lambda>_.
     Inr \<lparr>map_size = (width, height), map_tile_size = (tilewidth, tileheight),
          map_orientation = orientation, map_base_path = base_path, map_properties = [],
          map_tilesets = [], map_layers = []\<rparr>)))))))))))))"

definition read_map :: "library \<Rightarrow> element \<Rightarrow> string option \<Rightarrow> error + tmx_map" where
  "read_map lib root_elem base_path =
     and_then (read_map_attrib root_elem base_path)
       (read_map_children lib base_path (children root_elem))"

fun write_layers ::
  "library \<Rightarrow> (nat \<Rightarrow> int) \<Rightarrow> tmx_map \<Rightarrow> nat \<Rightarrow> layer list \<Rightarrow> element \<Rightarrow> error + element" where
  "write_layers lib clock m i [] elem = Inr elem"
| "write_layers lib clock m i (layer # rest) elem =
     and_then (layer_to_element lib (clock i) m layer) (\<lambda>e.
     write_layers lib clock m (Suc i) rest (append_child elem e))"

definition write_map :: "library \<Rightarrow> (nat \<Rightarrow> int) \<Rightarrow> tmx_map \<Rightarrow> string option \<Rightarrow> error + element" where
  "write_map lib clock m base_path =
     (let elem = Element ''map''
                   [(''version'', ''1.0''),
                    (''orientation'', map_orientation m),
                    (''width'', str_int (fst (map_size m))),
                    (''height'', str_int (snd (map_size m))),
                    (''tilewidth'', str_int (fst (map_tile_size m))),
                    (''tileheight'', str_int (snd (map_tile_size m)))] [] None;
          elem = append_properties elem (map_properties m);
          elem = foldl append_child elem
                   (map (\<lambda>i. write_tileset (map_tilesets m ! i)
                                 (Some (first_gid lib (map_tilesets m) i)))
                      [0..<length (map_tilesets m)])
      in write_layers lib clock m 0 (map_layers m) elem)"

subsection \<open>A reference library\<close>

text \<open>
  The theorems below hold for every library. To evaluate the codec on concrete
  documents, \<open>ref_lib\<close> instantiates the parameters: base64 is the standard alphabet
  with padding (RFC 4648; the decoder is strict, it accepts canonical text only); the
  zlib and gzip instances keep the container header of the format (for gzip: magic
  number, method, flags, the four bytes of the modification time in little-endian order,
  extra flags and OS byte) and store the payload as it is, standing in for the deflate
  stream and the checksums; floats are printed and parsed for the two values \<open>0.0\<close> and
  \<open>0.5\<close> only; there are no tileset files; a tileset has as many tiles as its tile size
  fits into its image; and the tile of a gid is looked up by the running tile counts.
\<close>

definition b64_alphabet :: string where
  "b64_alphabet = ''ABCDEFGHIJKLMNOPQRSTUVWXYZabcdefghijklmnopqrstuvwxyz0123456789+/''"

definition b64_char :: "nat \<Rightarrow> char" where
  "b64_char n = b64_alphabet ! n"

definition b64_index :: "char \<Rightarrow> nat option" where
  "b64_index c =
     (let n = (of_char c :: nat) in
      if 65 \<le> n \<and> n \<le> 90 then Some (n - 65)
      else if 97 \<le> n \<and> n \<le> 122 then Some (n - 71)
      else if 48 \<le> n \<and> n \<le> 57 then Some (n + 4)
      else if n = 43 then Some 62
      else if n = 47 then Some 63
      else None)"

fun b64_encode :: "string \<Rightarrow> string" where
  "b64_encode [] = []"
| "b64_encode [a] =
     (let x = (of_char a :: nat)
      in [b64_char (x div 4), b64_char (x mod 4 * 16), CHR ''='', CHR ''=''])"
| "b64_encode [a, b] =
     (let x = (of_char a :: nat); y = (of_char b :: nat)
      in [b64_char (x div 4), b64_char (x mod 4 * 16 + y div 16), b64_char (y mod 16 * 4),
          CHR ''=''])"
| "b64_encode (a # b # c # rest) =
     (let x = (of_char a :: nat); y = (of_char b :: nat); z = (of_char c :: nat)
      in [b64_char (x div 4), b64_char (x mod 4 * 16 + y div 16),
          b64_char (y mod 16 * 4 + z div 64), b64_char (z mod 64)] @ b64_encode rest)"

fun b64_decode :: "string \<Rightarrow> error + string" where
  "b64_decode [] = Inr []"
| "b64_decode (a # b # c # d # rest) =
     (case (b64_index a, b64_index b) of
        (Some p, Some q) \<Rightarrow>
          if c = CHR ''='' \<and> d = CHR ''='' \<and> rest = []
          then Inr [char_of (p * 4 + q div 16)]
          else (case b64_index c of
                  None \<Rightarrow> Inl (TypeError ''Incorrect padding'')
                | Some r \<Rightarrow>
                    if d = CHR ''='' \<and> rest = []
                    then Inr [char_of (p * 4 + q div 16), char_of (q mod 16 * 16 + r div 4)]
                    else (case b64_index d of
                            None \<Rightarrow> Inl (TypeError ''Incorrect padding'')
                          | Some s \<Rightarrow>
                              and_then (b64_decode rest) (\<lambda>bytes.
                              Inr ([char_of (p * 4 + q div 16),
                                    char_of (q mod 16 * 16 + r div 4),
                                    char_of (r mod 4 * 64 + s)] @ bytes))))
      | _ \<Rightarrow> Inl (TypeError ''Incorrect padding''))"
| "b64_decode _ = Inl (TypeError ''Incorrect padding'')"

definition zlib_store :: "string \<Rightarrow> string" where
  "zlib_store d = [CHR 0x78, CHR 0x9C] @ d"

definition zlib_unstore :: "string \<Rightarrow> error + string" where
  "zlib_unstore s =
     (if take 2 s = [CHR 0x78, CHR 0x9C] then Inr (drop 2 s)
      else Inl (LibraryError ''zlib.error''))"

definition gzip_store :: "int \<Rightarrow> string \<Rightarrow> string" where
  "gzip_store t d = [CHR 0x1F, CHR 0x8B, CHR 0x08, CHR 0x00] @ pack_u32 t @ [CHR 0x02, CHR 0xFF] @ d"

definition gzip_unstore :: "string \<Rightarrow> error + string" where
  "gzip_unstore s =
     (if take 3 s = [CHR 0x1F, CHR 0x8B, CHR 0x08] \<and> 10 \<le> length s then Inr (drop 10 s)
      else Inl (LibraryError ''IOError: Not a gzipped file''))"

definition ref_str_of_float :: "real \<Rightarrow> string" where
  "ref_str_of_float r = (if r = 1 / 2 then ''0.5'' else ''0.0'')"

definition ref_float_of_str :: "string \<Rightarrow> error + real" where
  "ref_float_of_str s =
     (if s = ''0.5'' then Inr (1 / 2)
      else if s = ''0.0'' then Inr 0
      else Inl (ValueError ''could not convert string to float''))"

definition image_tiles :: "tileset \<Rightarrow> int" where
  "image_tiles t =
     (case ts_image t of
        None \<Rightarrow> 0
      | Some img \<Rightarrow> (fst (img_size img) div fst (ts_tile_size t)) *
                    (snd (img_size img) div snd (ts_tile_size t)))"

fun gid_tile_size :: "tileset list \<Rightarrow> int \<Rightarrow> (int \<times> int) option" where
  "gid_tile_size [] g = None"
| "gid_tile_size (t # ts) g =
     (if g < 1 then None
      else if g \<le> image_tiles t then Some (ts_tile_size t)
      else gid_tile_size ts (g - image_tiles t))"

definition ref_lib :: library where
  "ref_lib =
     \<lparr>b64encode = b64_encode, b64decode = b64_decode,
      zlib_compress = zlib_store, zlib_decompress = zlib_unstore,
      gzip_compress = gzip_store, gzip_decompress = gzip_unstore,
      float_of_str = ref_float_of_str, str_of_float = ref_str_of_float,
      open_tileset = (\<lambda>path. Inl (LibraryError ''IOError: No such file or directory'')),
      len_tileset = image_tiles,
      tileset_tile_size = (\<lambda>tilesets v. case v of None \<Rightarrow> None
                                            | Some g \<Rightarrow> gid_tile_size tilesets g)\<rparr>"

subsection \<open>Concrete documents and markup\<close>

text \<open>
  The specification's scenario: a 2 by 1 orthogonal map with 8 by 8 tiles, one embedded
  tileset \<open>t\<close> and one tile layer \<open>L\<close> with data \<open>[1, 2]\<close>. \<open>short_layer_elem\<close> is a
  \<open>layer\<close> node for that map whose data decodes to five bytes, \<open>full_layer_elem\<close> one
  whose data decodes to the eight bytes of \<open>[1, 2]\<close>.
\<close>

definition empty_map :: tmx_map where
  "empty_map =
     \<lparr>map_size = (2, 1), map_tile_size = (8, 8), map_orientation = ''orthogonal'',
      map_base_path = None, map_properties = [], map_tilesets = [], map_layers = []\<rparr>"

definition short_data_elem :: element where
  "short_data_elem = Element ''data'' [(''encoding'', ''base64'')] [] (Some ''AQAAAAI='')"

definition short_layer_elem :: element where
  "short_layer_elem =
     Element ''layer'' [(''name'', ''L''), (''width'', ''2''), (''height'', ''1'')]
       [short_data_elem] None"

definition full_data_elem :: element where
  "full_data_elem = Element ''data'' [(''encoding'', ''base64'')] [] (Some ''AQAAAAIAAAA='')"

definition full_layer_elem :: element where
  "full_layer_elem =
     Element ''layer'' [(''name'', ''L''), (''width'', ''2''), (''height'', ''1'')]
       [full_data_elem] None"

definition plain_layer :: "int list \<Rightarrow> tile_layer" where
  "plain_layer d =
     \<lparr>tl_name = ''L'', tl_opacity = 1, tl_visible = True, tl_properties = [], tl_data = d,
      tl_encoding = PyStr ''base64'', tl_compression = PyNone, tl_mtime = None\<rparr>"

text \<open>
  \<open>property_node c kv\<close>: the node \<open>c\<close> is a \<open>property\<close> node whose attributes are exactly
  \<open>name\<close> and \<open>value\<close>, with the values of the pair \<open>kv\<close>. \<open>tags\<close> lists the tags of a
  node and of all nodes below it.
\<close>

definition property_node :: "element \<Rightarrow> string \<times> string \<Rightarrow> bool" where
  "property_node c kv =
     (tag c = ''property'' \<and> map_of (attrib c) ''name'' = Some (fst kv) \<and>
      map_of (attrib c) ''value'' = Some (snd kv) \<and>
      dict_del ''value'' (dict_del ''name'' (attrib c)) = [])"

fun tags :: "element \<Rightarrow> string list" where
  "tags (Element t a cs x) = t # concat (map tags cs)"

definition twice_a_elem :: element where
  "twice_a_elem =
     Element ''properties'' []
       [Element ''property'' [(''name'', ''a''), (''value'', ''1'')] [] None,
        Element ''property'' [(''name'', ''b''), (''value'', ''x'')] [] None,
        Element ''property'' [(''value'', ''2''), (''name'', ''a'')] [] None] None"

definition layer_properties :: "layer \<Rightarrow> props" where
  "layer_properties l =
     (case l of TileLayer t \<Rightarrow> tl_properties t | ObjectLayer ol \<Rightarrow> ol_properties ol
      | OtherLayer s \<Rightarrow> [])"

definition scenario_tileset :: tileset where
  "scenario_tileset =
     \<lparr>ts_name = ''t'', ts_tile_size = (8, 8), ts_margin = 0, ts_spacing = 0,
      ts_image = Some \<lparr>img_source = ''t.png'', img_size = (16, 8), img_trans = None\<rparr>,
      ts_tile_properties = [], ts_source = None, ts_read_first_gid = Some 1\<rparr>"

definition scenario_layer :: tile_layer where
  "scenario_layer =
     \<lparr>tl_name = ''L'', tl_opacity = 1, tl_visible = True, tl_properties = [],
      tl_data = [1, 2], tl_encoding = PyStr ''base64'', tl_compression = PyStr ''zlib'',
      tl_mtime = None\<rparr>"

definition scenario_objects :: object_layer where
  "scenario_objects =
     \<lparr>ol_name = ''O'', ol_opacity = 1 / 2, ol_visible = False, ol_properties = [],
      ol_objects = [\<lparr>mo_pos = (- 3, 4), mo_size = (5, 6), mo_value = Some 2,
                     mo_name = Some ''door'', mo_type = None\<rparr>]\<rparr>"

definition scenario_map :: tmx_map where
  "scenario_map =
     \<lparr>map_size = (2, 1), map_tile_size = (8, 8), map_orientation = ''orthogonal'',
      map_base_path = None, map_properties = [], map_tilesets = [scenario_tileset],
      map_layers = [TileLayer scenario_layer, ObjectLayer scenario_objects]\<rparr>"

definition scenario_tree :: element where
  "scenario_tree =
     Element ''map''
       [(''version'', ''1.0''), (''orientation'', ''orthogonal''), (''width'', ''2''),
        (''height'', ''1''), (''tilewidth'', ''8''), (''tileheight'', ''8'')]
       [Element ''tileset''
          [(''name'', ''t''), (''tileheight'', ''8''), (''tilewidth'', ''8''),
           (''firstgid'', ''1'')]
          [Element ''image''
             [(''source'', ''t.png''), (''height'', ''8''), (''width'', ''16'')] [] None]
          None,
        Element ''layer'' [(''name'', ''L''), (''width'', ''2''), (''height'', ''1'')]
          [Element ''data'' [(''compression'', ''zlib''), (''encoding'', ''base64'')] []
             (Some ''eJwBAAAAAgAAAA=='')]
          None,
        Element ''objectgroup''
          [(''name'', ''O''), (''width'', ''2''), (''height'', ''1''), (''visible'', ''0''),
           (''opacity'', ''0.5'')]
          [Element ''object''
             [(''x'', ''-3''), (''y'', ''4''), (''gid'', ''2''), (''name'', ''door''),
              (''width'', ''5''), (''height'', ''6'')] [] None]
          None]
       None"

text \<open>
  A tile layer with an unsupported compression value and a tile ID that does not fit
  32 bits, and one with supported data and compression and an unsupported encoding.
\<close>

definition unsupported_layer :: tile_layer where
  "unsupported_layer =
     \<lparr>tl_name = ''L'', tl_opacity = 1, tl_visible = True, tl_properties = [],
      tl_data = [4294967296, 2], tl_encoding = PyStr ''base64'',
      tl_compression = PyStr ''lzma'', tl_mtime = None\<rparr>"

definition in_range_u32 :: "int list \<Rightarrow> bool" where
  "in_range_u32 d = list_all (\<lambda>v. 0 \<le> v \<and> v < 4294967296) d"

definition supported_compression :: "pyattr \<Rightarrow> bool" where
  "supported_compression c = (c = PyStr ''gzip'' \<or> c = PyStr ''zlib'' \<or> \<not> attr_truthy c)"

text \<open>
  The attributes \<open>read_map\<close> pops off a \<open>map\<close> node. \<open>map_header_accepted\<close>: the node
  has the tag \<open>map\<close>, the version \<open>1.0\<close>, integer literals for the four sizes and an
  orientation, so that none of the checks before the one for unexpected attributes
  fails.
\<close>

definition map_attribute_names :: "string list" where
  "map_attribute_names =
     [''version'', ''orientation'', ''width'', ''height'', ''tilewidth'', ''tileheight'']"

definition map_header_accepted ::
  "element \<Rightarrow> int \<Rightarrow> int \<Rightarrow> int \<Rightarrow> int \<Rightarrow> string \<Rightarrow> bool" where
  "map_header_accepted r w h tw th ori =
     (tag r = ''map'' \<and> map_of (attrib r) ''version'' = Some ''1.0'' \<and>
      and_then (pop ''width'' (attrib r)) (\<lambda>(s, _). py_int s) = Inr w \<and>
      and_then (pop ''height'' (attrib r)) (\<lambda>(s, _). py_int s) = Inr h \<and>
      and_then (pop ''tilewidth'' (attrib r)) (\<lambda>(s, _). py_int s) = Inr tw \<and>
      and_then (pop ''tileheight'' (attrib r)) (\<lambda>(s, _). py_int s) = Inr th \<and>
      map_of (attrib r) ''orientation'' = Some ori)"

definition foo_tree :: element where
  "foo_tree = set_attrib ''foo'' ''bar'' scenario_tree"

text \<open>
  \<open>markup_first_gid e\<close> is the \<open>firstgid\<close> a \<open>tileset\<close> node declares, as \<open>read_tileset\<close>
  parses it (0 when an embedded tileset declares none). \<open>two_tilesets_tree\<close> is a map
  node with two embedded tilesets of two tiles each, declaring the first global tile
  IDs 1 and \<open>g\<close>.
\<close>

definition markup_first_gid :: "element \<Rightarrow> error + int" where
  "markup_first_gid e = int_default 0 (map_of (attrib e) ''firstgid'')"

definition tileset_elems :: "element \<Rightarrow> element list" where
  "tileset_elems r = filter (\<lambda>c. tag c = ''tileset'') (children r)"

definition two_tilesets_tree :: "string \<Rightarrow> element" where
  "two_tilesets_tree g =
     Element ''map''
       [(''version'', ''1.0''), (''orientation'', ''orthogonal''), (''width'', ''2''),
        (''height'', ''1''), (''tilewidth'', ''8''), (''tileheight'', ''8'')]
       [Element ''tileset''
          [(''name'', ''t''), (''tileheight'', ''8''), (''tilewidth'', ''8''),
           (''firstgid'', ''1'')]
          [Element ''image''
             [(''source'', ''t.png''), (''height'', ''8''), (''width'', ''16'')] [] None]
          None,
        Element ''tileset''
          [(''name'', ''u''), (''tileheight'', ''8''), (''tilewidth'', ''8''),
           (''firstgid'', g)]
          [Element ''image''
             [(''source'', ''u.png''), (''height'', ''8''), (''width'', ''16'')] [] None]
          None]
       None"

definition two_tilesets_map :: tmx_map where
  "two_tilesets_map =
     \<lparr>map_size = (2, 1), map_tile_size = (8, 8), map_orientation = ''orthogonal'',
      map_base_path = None, map_properties = [],
      map_tilesets =
        [scenario_tileset,
         \<lparr>ts_name = ''u'', ts_tile_size = (8, 8), ts_margin = 0, ts_spacing = 0,
          ts_image = Some \<lparr>img_source = ''u.png'', img_size = (16, 8), img_trans = None\<rparr>,
          ts_tile_properties = [], ts_source = None, ts_read_first_gid = Some 3\<rparr>],
      map_layers = []\<rparr>"





text \<open>
  \<open>write_then_read\<close> writes a map and reads the tree back, with the same base path.
  \<open>tinted_map rgb\<close> is the 2 by 1 map with the scenario's tileset alone, as a read
  returns it, the tileset's image having the transparent colour \<open>rgb\<close>.
\<close>

definition tinted_map :: "int \<times> int \<times> int \<Rightarrow> tmx_map" where
  "tinted_map rgb =
     empty_map\<lparr>map_tilesets :=
       [scenario_tileset\<lparr>ts_image :=
          Some \<lparr>img_source = ''t.png'', img_size = (16, 8), img_trans = Some rgb\<rparr>\<rparr>]\<rparr>"

definition write_then_read ::
  "library \<Rightarrow> (nat \<Rightarrow> int) \<Rightarrow> tmx_map \<Rightarrow> string option \<Rightarrow> error + tmx_map" where
  "write_then_read lib clock m base_path =
     and_then (write_map lib clock m base_path) (\<lambda>tree. read_map lib tree base_path)"

section \<open>Properties\<close>

subsection \<open>Sequencing of fallible steps\<close>

lemma and_then_Inr [simp]: "and_then (Inr v) f = f v"
  by (simp add: and_then_def)

lemma and_then_Inl [simp]: "and_then (Inl e) f = Inl e"
  by (simp add: and_then_def)

lemma and_then_eq_Inr: "and_then m f = Inr r \<longleftrightarrow> (\<exists>v. m = Inr v \<and> f v = Inr r)"
  by (cases m) simp_all

lemma and_then_eq_Inl:
  "and_then m f = Inl e \<longleftrightarrow> m = Inl e \<or> (\<exists>v. m = Inr v \<and> f v = Inl e)"
  by (cases m) simp_all

lemma py_assert_True [simp]: "py_assert True msg = Inr ()"
  by (simp add: py_assert_def)

lemma py_assert_False [simp]: "py_assert False msg = Inl (AssertionError msg)"
  by (simp add: py_assert_def)

lemma py_assert_eq_Inr [simp]: "py_assert b msg = Inr u \<longleftrightarrow> b"
  by (simp add: py_assert_def)

lemma py_assert_eq_Inl [simp]: "py_assert b msg = Inl e \<longleftrightarrow> \<not> b \<and> e = AssertionError msg"
  by (auto simp: py_assert_def)

subsection \<open>Dictionaries\<close>

lemma map_of_dict_set: "map_of (dict_set k v d) = (map_of d)(k \<mapsto> v)"
  by (induction d) auto

lemma map_of_dict_del: "map_of (dict_del k d) k' = (if k' = k then None else map_of d k')"
  by (induction d) (auto simp: dict_del_def)

lemma dict_update_Nil [simp]: "dict_update d [] = d"
  by (simp add: dict_update_def)

lemma dict_update_Cons [simp]:
  "dict_update d (kv # kvs) = dict_update (dict_set (fst kv) (snd kv) d) kvs"
  by (simp add: dict_update_def)

lemma map_of_dict_update: "map_of (dict_update d kvs) = map_of d ++ map_of (rev kvs)"
proof (induction kvs arbitrary: d)
  case Nil
  then show ?case by simp
next
  case (Cons kv kvs)
  show ?case
  proof (rule ext)
    fix x
    show "map_of (dict_update d (kv # kvs)) x = (map_of d ++ map_of (rev (kv # kvs))) x"
      by (cases kv) (simp add: Cons.IH map_of_dict_set map_add_def split: option.split)
  qed
qed

lemma pop_Some: "map_of d k = Some v \<Longrightarrow> pop k d = Inr (v, dict_del k d)"
  by (simp add: pop_def)

lemma pop_None: "map_of d k = None \<Longrightarrow> pop k d = Inl (KeyError k)"
  by (simp add: pop_def)


subsection \<open>Colour codec\<close>

text \<open>
  C4. The serializer of the colour codec is claimed to write each byte as two lowercase
  hexadecimal digits, zero-padded on the left. \<open>to_rgb\<close> pads with \<open>ljust\<close>, that is on
  the right: the byte 5 is written \<open>50\<close>, so the colour (5, 0, 0) is written
  \<open>500000\<close> where the claim requires \<open>050000\<close>.
\<close>

theorem to_rgb_pads_on_the_right: "to_rgb (5, 0, 0) = ''500000''"
  by (simp add: to_rgb_def hex_def hex_nat.simps ljust_def hexdigit_def)

lemma to_rgb_red: "to_rgb (255, 0, 0) = ''ff0000''"
  by (simp add: to_rgb_def hex_def hex_nat.simps ljust_def hexdigit_def)

lemma from_rgb_to_rgb_5: "from_rgb (to_rgb (5, 0, 0)) = Inr (80, 0, 0)"
  by (simp add: to_rgb_def hex_def hex_nat.simps ljust_def hexdigit_def from_rgb_def
      unhexlify_ord_def unhex_digit_def)

subsection \<open>Reading tile data\<close>

lemma length_stride4: "length (stride4 xs) = (length xs + 3) div 4"
  by (induction xs rule: stride4.induct) auto

lemma nth_stride4: "i < length (stride4 xs) \<Longrightarrow> stride4 xs ! i = xs ! (4 * i)"
proof (induction xs arbitrary: i rule: stride4.induct)
  case 1
  then show ?case by simp
next
  case (2 a as)
  show ?case
  proof (cases i)
    case 0
    then show ?thesis by simp
  next
    case (Suc j)
    with "2.prems" have j: "j < length (stride4 (drop 3 as))" by simp
    then have "3 + 4 * j < length as" by (simp add: length_stride4)
    with "2.IH" [OF j] Suc show ?thesis by simp
  qed
qed

lemma length_slice_from: "length (slice_from x data) = (length data - x + 3) div 4"
  by (simp add: slice_from_def length_stride4)

lemma nth_slice_from:
  "i < length (slice_from x data) \<Longrightarrow> slice_from x data ! i = data ! (x + 4 * i)"
proof -
  assume a: "i < length (slice_from x data)"
  then have "x + 4 * i < length data" by (simp add: length_slice_from)
  with a show ?thesis by (simp add: slice_from_def nth_stride4)
qed

lemma length_unpack_tiles: "length (unpack_tiles data) = length data div 4"
  by (simp add: unpack_tiles_def length_slice_from)

lemma nth_unpack_tiles:
  assumes "i < length data div 4"
  shows "unpack_tiles data ! i =
     of_char (data ! (4 * i)) + 256 * of_char (data ! (4 * i + 1))
       + 65536 * of_char (data ! (4 * i + 2)) + 16777216 * of_char (data ! (4 * i + 3))"
proof -
  from assms have "i < length (slice_from 0 data)" "i < length (slice_from 1 data)"
    "i < length (slice_from 2 data)" "i < length (slice_from 3 data)"
    by (simp_all add: length_slice_from)
  then show ?thesis
    by (simp add: unpack_tiles_def nth_slice_from tile_of_bytes_def push_bit_eq_mult
        add.commute)
qed

lemma read_data_eq_Inr:
  "read_data lib sub = Inr (tiles, enc, co) \<longleftrightarrow>
     (\<exists>b. decode_data lib sub = Inr (b, co) \<and> tiles = unpack_tiles b \<and> enc = PyStr ''base64'')"
  by (auto simp: read_data_def and_then_eq_Inr)

lemma read_tile_layer_children_data:
  "read_tile_layer_children lib cs (l, ds) = Inr (l', ds') \<Longrightarrow>
     (if ds then filter (\<lambda>c. tag c = ''data'') cs = [] \<and> tl_data l' = tl_data l \<and> ds'
      else (filter (\<lambda>c. tag c = ''data'') cs = [] \<and> tl_data l' = tl_data l \<and> \<not> ds') \<or>
           (\<exists>sub b co. filter (\<lambda>c. tag c = ''data'') cs = [sub] \<and>
               decode_data lib sub = Inr (b, co) \<and> tl_data l' = unpack_tiles b \<and> ds'))"
proof (induction cs arbitrary: l ds)
  case Nil
  then show ?case by auto
next
  case (Cons c cs)
  show ?case
  proof (cases "tag c = ''properties''")
    case True
    with Cons.prems obtain new where
      "read_tile_layer_children lib cs (l\<lparr>tl_properties := dict_update (tl_properties l) new\<rparr>, ds)
         = Inr (l', ds')"
      by (auto simp: and_then_eq_Inr)
    from Cons.IH [OF this] True show ?thesis by (auto split: if_splits)
  next
    case False
    note np = this
    show ?thesis
    proof (cases "tag c = ''data''")
      case True
      with np Cons.prems obtain tiles enc co where nds: "\<not> ds"
        and rd: "read_data lib c = Inr (tiles, enc, co)"
        and rest: "read_tile_layer_children lib cs
            (l\<lparr>tl_data := tiles, tl_encoding := enc, tl_compression := co\<rparr>, True) = Inr (l', ds')"
        by (auto simp: and_then_eq_Inr)
      from rd obtain b where b: "decode_data lib c = Inr (b, co)" "tiles = unpack_tiles b"
        by (auto simp: read_data_eq_Inr)
      from Cons.IH [OF rest] have "filter (\<lambda>c. tag c = ''data'') cs = []"
        "tl_data l' = tiles" "ds'" by (simp_all split: if_splits)
      with nds b True show ?thesis by auto
    next
      case False
      with np Cons.prems show ?thesis by simp
    qed
  qed
qed

lemma tile_layer_from_element_data:
  assumes "tile_layer_from_element lib elem m = Inr layer"
  shows "\<exists>sub b co. filter (\<lambda>c. tag c = ''data'') (children elem) = [sub] \<and>
           decode_data lib sub = Inr (b, co) \<and> tl_data layer = unpack_tiles b"
proof -
  from assms obtain l0 ds' where
    r: "read_tile_layer_children lib (children elem) (l0, False) = Inr (layer, ds')" and "ds'"
    by (auto simp: tile_layer_from_element_def and_then_eq_Inr)
  from read_tile_layer_children_data [OF r] \<open>ds'\<close> show ?thesis by (auto split: if_splits)
qed

lemma the_data_child:
  assumes "filter (\<lambda>c. tag c = ''data'') cs = [sub]" "sub' \<in> set cs" "tag sub' = ''data''"
  shows "sub' = sub"
proof -
  from assms(2,3) have "sub' \<in> set (filter (\<lambda>c. tag c = ''data'') cs)" by simp
  with assms(1) show ?thesis by simp
qed

text \<open>
  C5. When a tile layer is read and the bytes \<open>b\<close> that its \<open>data\<close> child decodes to
  (after transport decoding and decompression) have length \<open>4 * w * h\<close>, the layer has
  \<open>w * h\<close> cells, and cell \<open>i\<close> is the unsigned 32-bit little-endian integer
  \<open>b[4i] + 256 b[4i+1] + 65536 b[4i+2] + 16777216 b[4i+3]\<close>. This holds for every \<open>w\<close>
  and \<open>h\<close>, in particular for the width and height of the owning document.
\<close>

theorem tile_layer_cells_little_endian:
  assumes "tile_layer_from_element lib elem m = Inr layer"
    and "sub \<in> set (children elem)" and "tag sub = ''data''"
    and "decode_data lib sub = Inr (b, co)"
    and "length b = 4 * w * h"
    and "i < w * h"
  shows "length (tl_data layer) = w * h \<and>
         tl_data layer ! i =
           of_char (b ! (4 * i)) + 256 * of_char (b ! (4 * i + 1))
             + 65536 * of_char (b ! (4 * i + 2)) + 16777216 * of_char (b ! (4 * i + 3))"
proof -
  from tile_layer_from_element_data [OF assms(1)] obtain sub' b' co' where
    f: "filter (\<lambda>c. tag c = ''data'') (children elem) = [sub']"
    and d: "decode_data lib sub' = Inr (b', co')" and u: "tl_data layer = unpack_tiles b'"
    by blast
  from the_data_child [OF f assms(2,3)] d assms(4) have "b' = b" by simp
  with u have u': "tl_data layer = unpack_tiles b" by simp
  from assms(5,6) have i: "i < length b div 4" by simp
  from assms(5) have "length b div 4 = w * h" by simp
  with u' nth_unpack_tiles [OF i] show ?thesis by (simp add: length_unpack_tiles)
qed

lemma full_layer_read:
  "tile_layer_from_element ref_lib full_layer_elem empty_map = Inr (plain_layer [1, 2])"
  by code_simp

lemma full_data_decode:
  "decode_data ref_lib full_data_elem =
     Inr ([CHR 0x01, CHR 0x00, CHR 0x00, CHR 0x00, CHR 0x02, CHR 0x00, CHR 0x00, CHR 0x00], PyNone)"
  by code_simp

theorem tile_layer_cells_little_endian_witness:
  "tile_layer_from_element ref_lib full_layer_elem empty_map = Inr (plain_layer [1, 2]) \<and>
   full_data_elem \<in> set (children full_layer_elem) \<and> tag full_data_elem = ''data'' \<and>
   decode_data ref_lib full_data_elem =
     Inr ([CHR 0x01, CHR 0x00, CHR 0x00, CHR 0x00, CHR 0x02, CHR 0x00, CHR 0x00, CHR 0x00], PyNone) \<and>
   length [CHR 0x01, CHR 0x00, CHR 0x00, CHR 0x00, CHR 0x02, CHR 0x00, CHR 0x00, CHR 0x00]
     = 4 * 2 * 1 \<and>
   (1 :: nat) < 2 * 1 \<and>
   length (tl_data (plain_layer [1, 2])) = 2 * 1 \<and>
   tl_data (plain_layer [1, 2]) ! 1 = 2"
proof -
  have h2: "full_data_elem \<in> set (children full_layer_elem)"
    by (simp add: full_layer_elem_def)
  have h3: "tag full_data_elem = ''data''"
    by (simp add: full_data_elem_def)
  have h5: "length [CHR 0x01, CHR 0x00, CHR 0x00, CHR 0x00, CHR 0x02, CHR 0x00, CHR 0x00, CHR 0x00]
      = 4 * 2 * 1"
    by simp
  have h6: "(1 :: nat) < 2 * 1" by simp
  from tile_layer_cells_little_endian [OF full_layer_read h2 h3 full_data_decode h5 h6]
  have "length (tl_data (plain_layer [1, 2])) = 2 * 1"
    and "tl_data (plain_layer [1, 2]) ! 1 = 2"
    by simp_all
  with full_layer_read h2 h3 full_data_decode h5 h6 show ?thesis by blast
qed

text \<open>
  C2. The claim has the read fail with a data-length error unless the decoded bytes are
  exactly \<open>4 * width * height\<close> long. \<open>tile_layer_from_element\<close> has no such check: for
  the 2 by 1 map, a \<open>data\<close> child that decodes to five bytes is read, and gives one cell.
\<close>

theorem short_tile_data_is_read:
  "map_size empty_map = (2, 1) \<and>
   decode_data ref_lib short_data_elem =
     Inr ([CHR 0x01, CHR 0x00, CHR 0x00, CHR 0x00, CHR 0x02], PyNone) \<and>
   tile_layer_from_element ref_lib short_layer_elem empty_map = Inr (plain_layer [1])"
  by code_simp

text \<open>
  C2, as amended. Reading a \<open>layer\<close> node whose attributes are accepted and whose only
  child is a \<open>data\<close> node succeeds whatever the length of the decoded bytes \<open>b\<close> is, and
  gives \<open>length b div 4\<close> cells: whole groups of four bytes are reinterpreted and up to
  three trailing bytes are dropped. In particular the data has \<open>width * height\<close> cells
  when the length is \<open>4 * width * height\<close>.
\<close>

theorem tile_layer_read_any_length:
  assumes "read_layer_attrib lib elem m ''Unexpected tile layer attributes''
             = Inr (name, opacity, visible)"
    and "children elem = [sub]" and "tag sub = ''data''"
    and "decode_data lib sub = Inr (b, co)"
  shows "tile_layer_from_element lib elem m =
           Inr \<lparr>tl_name = name, tl_opacity = opacity, tl_visible = visible,
                tl_properties = [], tl_data = unpack_tiles b, tl_encoding = PyStr ''base64'',
                tl_compression = co, tl_mtime = None\<rparr> \<and>
         length (unpack_tiles b) = length b div 4"
  using assms
  by (simp add: tile_layer_from_element_def read_data_def length_unpack_tiles)

lemma short_layer_attrib:
  "read_layer_attrib ref_lib short_layer_elem empty_map ''Unexpected tile layer attributes''
     = Inr (''L'', 1, True)"
  by code_simp

theorem tile_layer_read_any_length_witness:
  "read_layer_attrib ref_lib short_layer_elem empty_map ''Unexpected tile layer attributes''
     = Inr (''L'', 1, True) \<and>
   children short_layer_elem = [short_data_elem] \<and> tag short_data_elem = ''data'' \<and>
   decode_data ref_lib short_data_elem =
     Inr ([CHR 0x01, CHR 0x00, CHR 0x00, CHR 0x00, CHR 0x02], PyNone) \<and>
   tile_layer_from_element ref_lib short_layer_elem empty_map =
     Inr \<lparr>tl_name = ''L'', tl_opacity = 1, tl_visible = True, tl_properties = [],
          tl_data = unpack_tiles [CHR 0x01, CHR 0x00, CHR 0x00, CHR 0x00, CHR 0x02],
          tl_encoding = PyStr ''base64'', tl_compression = PyNone, tl_mtime = None\<rparr> \<and>
   length (unpack_tiles [CHR 0x01, CHR 0x00, CHR 0x00, CHR 0x00, CHR 0x02]) = 1"
proof -
  have h2: "children short_layer_elem = [short_data_elem]"
    by (simp add: short_layer_elem_def)
  have h3: "tag short_data_elem = ''data''"
    by (simp add: short_data_elem_def)
  have h4: "decode_data ref_lib short_data_elem =
     Inr ([CHR 0x01, CHR 0x00, CHR 0x00, CHR 0x00, CHR 0x02], PyNone)"
    by code_simp
  from tile_layer_read_any_length [OF short_layer_attrib h2 h3 h4] short_layer_attrib h2 h3 h4
  show ?thesis by simp
qed

subsection \<open>Reading property bags\<close>

lemma read_property_children_nodes:
  "list_all2 property_node cs kvs \<Longrightarrow>
     read_property_children cs acc = Inr (dict_update acc kvs)"
proof (induction cs kvs arbitrary: acc rule: list_all2_induct)
  case Nil
  then show ?case by simp
next
  case (Cons c cs kv kvs)
  from Cons.hyps(1) have "pop ''name'' (attrib c) = Inr (fst kv, dict_del ''name'' (attrib c))"
    by (simp add: property_node_def pop_Some)
  moreover from Cons.hyps(1)
  have "pop ''value'' (dict_del ''name'' (attrib c))
          = Inr (snd kv, dict_del ''value'' (dict_del ''name'' (attrib c)))"
    by (simp add: property_node_def pop_Some map_of_dict_del)
  ultimately show ?case using Cons.hyps(1) Cons.IH
    by (simp add: property_node_def)
qed

text \<open>
  C10. A \<open>properties\<close> node whose children are \<open>property\<close> nodes with the names and
  values \<open>kvs\<close>, in document order, is read successfully, and the resulting mapping
  binds every name to the value of the last child that carries it: \<open>map_of (rev kvs)\<close>
  looks a name up from the end of the document. A name that occurs twice or more is
  therefore bound to the value of its last occurrence.
\<close>

theorem read_properties_last_wins:
  assumes "tag elem = ''properties''" and "attrib elem = []"
    and "list_all2 property_node (children elem) kvs"
  shows "\<exists>ps. read_properties elem = Inr ps \<and> map_of ps = map_of (rev kvs)"
  using assms
  by (simp add: read_properties_def read_property_children_nodes map_of_dict_update)

theorem read_properties_last_wins_witness:
  "tag twice_a_elem = ''properties'' \<and> attrib twice_a_elem = [] \<and>
   list_all2 property_node (children twice_a_elem) [(''a'', ''1''), (''b'', ''x''), (''a'', ''2'')] \<and>
   (\<exists>ps. read_properties twice_a_elem = Inr ps \<and> map_of ps ''a'' = Some ''2'')"
proof -
  have h1: "tag twice_a_elem = ''properties''" by (simp add: twice_a_elem_def)
  have h2: "attrib twice_a_elem = []" by (simp add: twice_a_elem_def)
  have h3: "list_all2 property_node (children twice_a_elem)
      [(''a'', ''1''), (''b'', ''x''), (''a'', ''2'')]"
    by (simp add: twice_a_elem_def property_node_def dict_del_def)
  from read_properties_last_wins [OF h1 h2 h3] obtain ps where
    "read_properties twice_a_elem = Inr ps"
    "map_of ps = map_of (rev [(''a'', ''1''), (''b'', ''x''), (''a'', ''2'')])"
    by blast
  then have "read_properties twice_a_elem = Inr ps \<and> map_of ps ''a'' = Some ''2''" by simp
  with h1 h2 h3 show ?thesis by blast
qed

lemma twice_a_read: "read_properties twice_a_elem = Inr [(''a'', ''2''), (''b'', ''x'')]"
  by code_simp

subsection \<open>Writing property bags\<close>

lemma tags_append_child: "tags (append_child p c) = tags p @ tags c"
  by (cases p) (simp add: append_child_def)

lemma tags_set_attrib [simp]: "tags (set_attrib k v e) = tags e"
  by (cases e) (simp add: set_attrib_def)

lemma tags_foldl_append_child:
  "tags (foldl append_child e cs) = tags e @ concat (map tags cs)"
  by (induction cs arbitrary: e) (simp_all add: tags_append_child)

lemma append_properties_Nil [simp]: "append_properties e [] = e"
  by (simp add: append_properties_def)

lemma tags_write_image [simp]: "tags (write_image img) = [''image'']"
  by (simp add: write_image_def Let_def split: option.split)

lemma tags_layer_element [simp]: "tags (layer_element lib t m name visible opacity) = [t]"
  by (simp add: layer_element_def Let_def)

lemma tags_object_element [simp]: "tags (object_element lib m obj) = [''object'']"
  by (simp add: object_element_def Let_def)

lemma tags_write_tileset:
  assumes "\<forall>tp\<in>set (ts_tile_properties t). snd tp = []"
  shows "''properties'' \<notin> set (tags (write_tileset t fgid))"
proof -
  from assms have "filter (\<lambda>tp. snd tp \<noteq> []) (sort_key fst (ts_tile_properties t)) = []"
    by (simp add: filter_empty_conv)
  then show ?thesis
    by (simp add: write_tileset_def Let_def tags_append_child split: option.split)
qed

lemma tags_tile_layer_to_element:
  assumes "tile_layer_to_element lib now m l = Inr e" and "tl_properties l = []"
  shows "tags e = [''layer'', ''data'']"
  using assms
  by (auto simp: tile_layer_to_element_def Let_def and_then_eq_Inr tags_append_child
      split: if_splits)

lemma tags_object_layer_to_element:
  assumes "ol_properties l = []"
  shows "''properties'' \<notin> set (tags (object_layer_to_element lib m l))"
  using assms
  by (auto simp: object_layer_to_element_def Let_def tags_foldl_append_child)

lemma tags_layer_to_element:
  assumes "layer_to_element lib now m l = Inr e" and "layer_properties l = []"
  shows "''properties'' \<notin> set (tags e)"
proof (cases l)
  case (TileLayer t)
  with assms tags_tile_layer_to_element [of lib now m t e] show ?thesis
    by (simp add: layer_to_element_def layer_properties_def)
next
  case (ObjectLayer ol)
  with assms tags_object_layer_to_element [of ol lib m] show ?thesis
    by (auto simp: layer_to_element_def layer_properties_def)
next
  case (OtherLayer s)
  with assms show ?thesis by (simp add: layer_to_element_def)
qed

lemma tags_write_layers:
  assumes "write_layers lib clock m i ls e = Inr tree"
    and "\<forall>l\<in>set ls. layer_properties l = []"
    and "''properties'' \<notin> set (tags e)"
  shows "''properties'' \<notin> set (tags tree)"
  using assms
proof (induction ls arbitrary: i e)
  case Nil
  then show ?case by simp
next
  case (Cons l ls)
  from Cons.prems(1) obtain c where c: "layer_to_element lib (clock i) m l = Inr c"
    and r: "write_layers lib clock m (Suc i) ls (append_child e c) = Inr tree"
    by (auto simp: and_then_eq_Inr)
  from tags_layer_to_element [OF c] Cons.prems(2) have "''properties'' \<notin> set (tags c)"
    by simp
  with Cons.prems(3) have "''properties'' \<notin> set (tags (append_child e c))"
    by (simp add: tags_append_child)
  with Cons.IH [OF r] Cons.prems(2) show ?case by simp
qed

text \<open>
  C9. When a document whose property bags are all empty (the document's, every
  layer's and every tile's of every tileset; \<open>write_tileset\<close> writes no bag of the
  tileset itself) is written, no node of the output tree has the tag \<open>properties\<close>.
\<close>

theorem no_properties_node_for_empty_bags:
  assumes "write_map lib clock m base_path = Inr tree"
    and "map_properties m = []"
    and "\<forall>l\<in>set (map_layers m). layer_properties l = []"
    and "\<forall>t\<in>set (map_tilesets m). \<forall>tp\<in>set (ts_tile_properties t). snd tp = []"
  shows "''properties'' \<notin> set (tags tree)"
proof -
  let ?e = "foldl append_child
      (Element ''map''
         [(''version'', ''1.0''), (''orientation'', map_orientation m),
          (''width'', str_int (fst (map_size m))), (''height'', str_int (snd (map_size m))),
          (''tilewidth'', str_int (fst (map_tile_size m))),
          (''tileheight'', str_int (snd (map_tile_size m)))] [] None)
      (map (\<lambda>i. write_tileset (map_tilesets m ! i) (Some (first_gid lib (map_tilesets m) i)))
         [0..<length (map_tilesets m)])"
  from assms(1,2) have w: "write_layers lib clock m 0 (map_layers m) ?e = Inr tree"
    by (simp add: write_map_def Let_def)
  have "''properties'' \<notin> set (tags (write_tileset (map_tilesets m ! i) g))"
    if "i < length (map_tilesets m)" for i g
  proof (rule tags_write_tileset)
    from that have "map_tilesets m ! i \<in> set (map_tilesets m)" by simp
    with assms(4) show "\<forall>tp\<in>set (ts_tile_properties (map_tilesets m ! i)). snd tp = []"
      by blast
  qed
  then have "''properties'' \<notin> set (tags ?e)"
    by (auto simp: tags_foldl_append_child)
  from tags_write_layers [OF w assms(3) this] show ?thesis .
qed

lemma scenario_map_written: "write_map ref_lib (\<lambda>i. 0) scenario_map None = Inr scenario_tree"
  by code_simp

theorem no_properties_node_for_empty_bags_witness:
  "write_map ref_lib (\<lambda>i. 0) scenario_map None = Inr scenario_tree \<and>
   map_properties scenario_map = [] \<and>
   list_all (\<lambda>l. layer_properties l = []) (map_layers scenario_map) \<and>
   list_all (\<lambda>t. list_all (\<lambda>tp. snd tp = []) (ts_tile_properties t))
     (map_tilesets scenario_map) \<and>
   ''properties'' \<notin> set (tags scenario_tree)"
proof -
  have h2: "map_properties scenario_map = []"
    by (simp add: scenario_map_def)
  have h3: "\<forall>l\<in>set (map_layers scenario_map). layer_properties l = []"
    by (simp add: scenario_map_def layer_properties_def scenario_layer_def
        scenario_objects_def)
  have h4: "\<forall>t\<in>set (map_tilesets scenario_map). \<forall>tp\<in>set (ts_tile_properties t). snd tp = []"
    by (simp add: scenario_map_def scenario_tileset_def)
  from no_properties_node_for_empty_bags [OF scenario_map_written h2 h3 h4]
  have "''properties'' \<notin> set (tags scenario_tree)" .
  with scenario_map_written h2 h3 h4 show ?thesis
    by (simp add: list_all_iff)
qed

subsection \<open>Errors of the tile-layer write path\<close>

text \<open>
  C8. The claim has an unsupported compression or encoding value rejected before any
  transform is attempted. \<open>tile_layer_to_element\<close> packs the tile IDs before it looks at
  either value: with the compression \<open>lzma\<close> and a tile ID of \<open>2^32\<close> the failure is the
  packing's \<open>struct.error\<close>; only with tile IDs that can be packed is the compression
  value reported.
\<close>

theorem bad_compression_reported_after_packing:
  "tile_layer_to_element ref_lib 0 empty_map unsupported_layer = Inl StructError \<and>
   tile_layer_to_element ref_lib 0 empty_map (unsupported_layer\<lparr>tl_data := [1, 2]\<rparr>)
     = Inl (ValueError ''Bad compression: %s'')"
  by code_simp

text \<open>
  C8, as amended. The write path of a tile layer fails in this order of precedence:
  with \<open>struct.error\<close> when a tile ID is outside the unsigned 32-bit range (packing comes
  first, whatever the compression and encoding values are); otherwise with
  \<open>ValueError('Bad compression: %s', ...)\<close> when the compression value (\<open>zlib\<close> when the
  layer has none set) is a non-empty string other than \<open>gzip\<close> and \<open>zlib\<close>; otherwise
  with \<open>struct.error\<close> when the compression is \<open>gzip\<close> and the stream's modification
  time (the layer's \<open>mtime\<close>, the clock's time when it has none) is outside the unsigned
  32-bit range; otherwise, after the compression step, with
  \<open>ValueError('Bad encoding: %s', ...)\<close> when the encoding value (\<open>base64\<close> when the layer
  has none set) is not \<open>base64\<close>; otherwise it returns the layer's node.
\<close>

theorem tile_layer_write_error_order:
  "(if \<not> in_range_u32 (tl_data layer)
    then tile_layer_to_element lib now m layer = Inl StructError
    else if \<not> supported_compression (getattr (tl_compression layer) (PyStr ''zlib''))
    then tile_layer_to_element lib now m layer = Inl (ValueError ''Bad compression: %s'')
    else if getattr (tl_compression layer) (PyStr ''zlib'') = PyStr ''gzip'' \<and>
            \<not> in_range_u32 [gzip_mtime now (tl_mtime layer)]
    then tile_layer_to_element lib now m layer = Inl StructError
    else if getattr (tl_encoding layer) (PyStr ''base64'') \<noteq> PyStr ''base64''
    then tile_layer_to_element lib now m layer = Inl (ValueError ''Bad encoding: %s'')
    else (\<exists>e. tile_layer_to_element lib now m layer = Inr e))"
  by (auto simp: tile_layer_to_element_def struct_pack_def in_range_u32_def Let_def
      supported_compression_def gzip_file_def)

theorem tile_layer_write_error_order_witness:
  "tile_layer_to_element ref_lib 0 empty_map unsupported_layer = Inl StructError \<and>
   tile_layer_to_element ref_lib 0 empty_map (unsupported_layer\<lparr>tl_data := [1, 2]\<rparr>)
     = Inl (ValueError ''Bad compression: %s'') \<and>
   tile_layer_to_element ref_lib 0 empty_map
       (scenario_layer\<lparr>tl_compression := PyStr ''gzip'', tl_encoding := PyStr ''hex'',
          tl_mtime := Some (- 1)\<rparr>)
     = Inl StructError \<and>
   tile_layer_to_element ref_lib 0 empty_map (scenario_layer\<lparr>tl_encoding := PyStr ''hex''\<rparr>)
     = Inl (ValueError ''Bad encoding: %s'') \<and>
   (\<exists>e. tile_layer_to_element ref_lib 0 empty_map scenario_layer = Inr e)"
  using tile_layer_write_error_order [of unsupported_layer ref_lib 0 empty_map]
    tile_layer_write_error_order [of "unsupported_layer\<lparr>tl_data := [1, 2]\<rparr>" ref_lib 0 empty_map]
    tile_layer_write_error_order [of "scenario_layer\<lparr>tl_compression := PyStr ''gzip'',
      tl_encoding := PyStr ''hex'', tl_mtime := Some (- 1)\<rparr>" ref_lib 0 empty_map]
    tile_layer_write_error_order [of "scenario_layer\<lparr>tl_encoding := PyStr ''hex''\<rparr>" ref_lib 0 empty_map]
    tile_layer_write_error_order [of scenario_layer ref_lib 0 empty_map]
  by (simp add: unsupported_layer_def scenario_layer_def in_range_u32_def
      supported_compression_def getattr_def attr_truthy_def gzip_mtime_def)

subsection \<open>Attributes of the map node\<close>

lemma pop_eq_Inr: "pop k d = Inr (v, d') \<longleftrightarrow> map_of d k = Some v \<and> d' = dict_del k d"
  by (auto simp: pop_def split: option.splits)

lemma map_attrib_left_empty:
  "dict_del ''orientation'' (dict_del ''tileheight'' (dict_del ''tilewidth''
     (dict_del ''height'' (dict_del ''width'' (dict_del ''version'' a))))) = []
   \<longleftrightarrow> list_all (\<lambda>p. fst p \<in> set map_attribute_names) a"
  by (auto simp: dict_del_def filter_empty_conv list_all_iff map_attribute_names_def)

lemma read_map_attrib_Inr:
  assumes "read_map_attrib r bp = Inr m"
  shows "list_all (\<lambda>p. fst p \<in> set map_attribute_names) (attrib r)"
proof -
  from assms have "dict_del ''orientation'' (dict_del ''tileheight'' (dict_del ''tilewidth''
     (dict_del ''height'' (dict_del ''width'' (dict_del ''version'' (attrib r)))))) = []"
    by (auto simp: read_map_attrib_def and_then_eq_Inr pop_eq_Inr)
  then show ?thesis by (simp only: map_attrib_left_empty)
qed

lemma read_map_attrib_accepted:
  assumes "map_header_accepted r w h tw th ori"
  shows "read_map_attrib r bp =
     (if list_all (\<lambda>p. fst p \<in> set map_attribute_names) (attrib r)
      then Inr \<lparr>map_size = (w, h), map_tile_size = (tw, th), map_orientation = ori,
                map_base_path = bp, map_properties = [], map_tilesets = [], map_layers = []\<rparr>
      else Inl (AssertionError ''Unexpected map attributes''))"
proof -
  from assms obtain ws hs tws ths where
    "tag r = ''map''" "map_of (attrib r) ''version'' = Some ''1.0''"
    "map_of (attrib r) ''width'' = Some ws" "py_int ws = Inr w"
    "map_of (attrib r) ''height'' = Some hs" "py_int hs = Inr h"
    "map_of (attrib r) ''tilewidth'' = Some tws" "py_int tws = Inr tw"
    "map_of (attrib r) ''tileheight'' = Some ths" "py_int ths = Inr th"
    "map_of (attrib r) ''orientation'' = Some ori"
    by (auto simp: map_header_accepted_def and_then_eq_Inr pop_eq_Inr)
  then show ?thesis
    by (simp add: read_map_attrib_def pop_Some map_of_dict_del map_attrib_left_empty)
qed

text \<open>
  C6. Reading a \<open>map\<close> node that carries an attribute outside
  \<open>version, orientation, width, height, tilewidth, tileheight\<close> fails, always. When
  the checks that come first accept the node (tag, version, the four sizes, the
  orientation), the result of \<open>read_map\<close> is the failed assertion
  \<open>Unexpected map attributes\<close> if some attribute is outside the set, and otherwise it is
  whatever reading the children gives, starting from the map built from the attributes:
  a node with recognized attributes only does not fail for this reason.
\<close>

theorem map_attributes_strict:
  "(k \<in> fst ` set (attrib r) \<and> k \<notin> set map_attribute_names
      \<longrightarrow> (\<exists>e. read_map lib r bp = Inl e)) \<and>
   (map_header_accepted r w h tw th ori \<longrightarrow>
      read_map lib r bp =
        (if list_all (\<lambda>p. fst p \<in> set map_attribute_names) (attrib r)
         then read_map_children lib bp (children r)
                \<lparr>map_size = (w, h), map_tile_size = (tw, th), map_orientation = ori,
                 map_base_path = bp, map_properties = [], map_tilesets = [],
                 map_layers = []\<rparr>
         else Inl (AssertionError ''Unexpected map attributes'')))"
proof (intro conjI impI)
  assume k: "k \<in> fst ` set (attrib r) \<and> k \<notin> set map_attribute_names"
  then have "\<not> list_all (\<lambda>p. fst p \<in> set map_attribute_names) (attrib r)"
    by (auto simp: list_all_iff)
  with read_map_attrib_Inr have "\<nexists>m. read_map_attrib r bp = Inr m" by blast
  then obtain e where "read_map_attrib r bp = Inl e"
    by (cases "read_map_attrib r bp") auto
  then show "\<exists>e. read_map lib r bp = Inl e" by (simp add: read_map_def)
next
  assume "map_header_accepted r w h tw th ori"
  from read_map_attrib_accepted [OF this, of bp]
  show "read_map lib r bp =
        (if list_all (\<lambda>p. fst p \<in> set map_attribute_names) (attrib r)
         then read_map_children lib bp (children r)
                \<lparr>map_size = (w, h), map_tile_size = (tw, th), map_orientation = ori,
                 map_base_path = bp, map_properties = [], map_tilesets = [],
                 map_layers = []\<rparr>
         else Inl (AssertionError ''Unexpected map attributes''))"
    by (simp add: read_map_def)
qed

lemma scenario_tree_read: "read_map ref_lib scenario_tree None = Inr scenario_map"
  by code_simp

theorem map_attributes_strict_witness:
  "''foo'' \<in> fst ` set (attrib foo_tree) \<and> ''foo'' \<notin> set map_attribute_names \<and>
   (\<exists>e. read_map ref_lib foo_tree None = Inl e) \<and>
   map_header_accepted foo_tree 2 1 8 8 ''orthogonal'' \<and>
   read_map ref_lib foo_tree None = Inl (AssertionError ''Unexpected map attributes'') \<and>
   map_header_accepted scenario_tree 2 1 8 8 ''orthogonal'' \<and>
   list_all (\<lambda>p. fst p \<in> set map_attribute_names) (attrib scenario_tree) \<and>
   read_map ref_lib scenario_tree None =
     read_map_children ref_lib None (children scenario_tree)
       \<lparr>map_size = (2, 1), map_tile_size = (8, 8), map_orientation = ''orthogonal'',
        map_base_path = None, map_properties = [], map_tilesets = [], map_layers = []\<rparr> \<and>
   read_map ref_lib scenario_tree None = Inr scenario_map"
proof -
  have k: "''foo'' \<in> fst ` set (attrib foo_tree) \<and> ''foo'' \<notin> set map_attribute_names"
    by (simp add: foo_tree_def set_attrib_def scenario_tree_def map_attribute_names_def)
  have hf: "map_header_accepted foo_tree 2 1 8 8 ''orthogonal''"
    by code_simp
  have hs: "map_header_accepted scenario_tree 2 1 8 8 ''orthogonal''"
    by code_simp
  have nf: "\<not> list_all (\<lambda>p. fst p \<in> set map_attribute_names) (attrib foo_tree)"
    by (simp add: foo_tree_def set_attrib_def scenario_tree_def map_attribute_names_def)
  have ns: "list_all (\<lambda>p. fst p \<in> set map_attribute_names) (attrib scenario_tree)"
    by (simp add: scenario_tree_def map_attribute_names_def)
  note f = map_attributes_strict [where k = "''foo''" and r = foo_tree and lib = ref_lib
      and bp = None and w = 2 and h = 1 and tw = 8 and th = 8 and ori = "''orthogonal''"]
  note s = map_attributes_strict [where k = "''foo''" and r = scenario_tree and lib = ref_lib
      and bp = None and w = 2 and h = 1 and tw = 8 and th = 8 and ori = "''orthogonal''"]
  from f k have 1: "\<exists>e. read_map ref_lib foo_tree None = Inl e" by blast
  from f hf nf have 2: "read_map ref_lib foo_tree None
      = Inl (AssertionError ''Unexpected map attributes'')" by simp
  from s hs ns have 3: "read_map ref_lib scenario_tree None =
     read_map_children ref_lib None (children scenario_tree)
       \<lparr>map_size = (2, 1), map_tile_size = (8, 8), map_orientation = ''orthogonal'',
        map_base_path = None, map_properties = [], map_tilesets = [], map_layers = []\<rparr>"
    by simp
  from k 1 hf 2 hs ns 3 scenario_tree_read show ?thesis by blast
qed

subsection \<open>First global tile IDs\<close>

lemma read_tile_children_first_gid:
  "read_tile_children cs i t = Inr t' \<Longrightarrow> ts_read_first_gid t' = ts_read_first_gid t"
  by (induction cs arbitrary: t) (auto simp: and_then_eq_Inr split: if_splits)

lemma read_tileset_children_first_gid:
  "read_tileset_children cs t = Inr t' \<Longrightarrow> ts_read_first_gid t' = ts_read_first_gid t"
proof (induction cs arbitrary: t)
  case Nil
  then show ?case by simp
next
  case (Cons c cs)
  then show ?case
    by (fastforce simp: and_then_eq_Inr split: if_splits dest: read_tile_children_first_gid)
qed

lemma read_tileset_first_gid:
  assumes "read_tileset lib e bp = Inr t"
  shows "\<exists>g. ts_read_first_gid t = Some g \<and> markup_first_gid e = Inr g"
proof (cases "truthy (map_of (attrib e) ''source'')")
  case True
  with assms show ?thesis
    by (auto simp: read_tileset_def pop_default_def Let_def and_then_eq_Inr pop_eq_Inr
        markup_first_gid_def int_default_def map_of_dict_del split: if_splits)
next
  case False
  with assms show ?thesis
    by (auto simp: read_tileset_def pop_default_def Let_def and_then_eq_Inr pop_eq_Inr
        map_of_dict_del markup_first_gid_def split: if_splits
        dest!: read_tileset_children_first_gid)
qed


lemma read_map_children_tilesets:
  assumes "read_map_children lib bp cs m = Inr m'"
  shows "\<exists>new. map_tilesets m' = map_tilesets m @ new \<and>
     list_all2 (\<lambda>e t. read_tileset lib e bp = Inr t) (filter (\<lambda>c. tag c = ''tileset'') cs) new \<and>
     (\<forall>j<length new. ts_read_first_gid (new ! j)
        = Some (1 + sum_list (map (len_tileset lib) (map_tilesets m @ take j new))))"
  using assms
proof (induction cs arbitrary: m)
  case Nil
  then show ?case by simp
next
  case (Cons c cs)
  consider (p) "tag c = ''properties''" | (t) "tag c = ''tileset''" | (l) "tag c = ''layer''"
    | (ob) "tag c = ''objectgroup''"
    | (other) "tag c \<noteq> ''properties''" "tag c \<noteq> ''tileset''" "tag c \<noteq> ''layer''"
        "tag c \<noteq> ''objectgroup''"
    by blast
  then show ?case
  proof cases
    case p
    with Cons.prems obtain new where
      "read_map_children lib bp cs (m\<lparr>map_properties := dict_update (map_properties m) new\<rparr>)
         = Inr m'"
      by (auto simp: and_then_eq_Inr)
    from Cons.IH [OF this] p show ?thesis by simp
  next
    case t
    with Cons.prems obtain ts where rt: "read_tileset lib c bp = Inr ts"
      and g: "ts_read_first_gid ts
          = Some (first_gid lib (map_tilesets m @ [ts]) (length (map_tilesets m)))"
      and r: "read_map_children lib bp cs (m\<lparr>map_tilesets := map_tilesets m @ [ts]\<rparr>) = Inr m'"
      by (auto simp: and_then_eq_Inr)
    from Cons.IH [OF r] obtain new where n: "map_tilesets m' = (map_tilesets m @ [ts]) @ new"
      and a: "list_all2 (\<lambda>e t. read_tileset lib e bp = Inr t)
               (filter (\<lambda>c. tag c = ''tileset'') cs) new"
      and f: "\<forall>j<length new. ts_read_first_gid (new ! j)
        = Some (1 + sum_list (map (len_tileset lib) ((map_tilesets m @ [ts]) @ take j new)))"
      by auto
    have "\<forall>j<length (ts # new). ts_read_first_gid ((ts # new) ! j)
        = Some (1 + sum_list (map (len_tileset lib) (map_tilesets m @ take j (ts # new))))"
    proof (intro allI impI)
      fix j assume j: "j < length (ts # new)"
      show "ts_read_first_gid ((ts # new) ! j)
        = Some (1 + sum_list (map (len_tileset lib) (map_tilesets m @ take j (ts # new))))"
      proof (cases j)
        case 0
        with g show ?thesis by (simp add: first_gid_def)
      next
        case (Suc k)
        with j f show ?thesis by simp
      qed
    qed
    with n a rt t show ?thesis by (intro exI [of _ "ts # new"]) simp
  next
    case l
    with Cons.prems obtain tl where
      "read_map_children lib bp cs (m\<lparr>map_layers := map_layers m @ [TileLayer tl]\<rparr>) = Inr m'"
      by (auto simp: and_then_eq_Inr)
    from Cons.IH [OF this] l show ?thesis by simp
  next
    case ob
    with Cons.prems obtain ol where
      "read_map_children lib bp cs (m\<lparr>map_layers := map_layers m @ [ObjectLayer ol]\<rparr>) = Inr m'"
      by (auto simp: and_then_eq_Inr)
    from Cons.IH [OF this] ob show ?thesis by simp
  next
    case other
    with Cons.prems show ?thesis by simp
  qed
qed

lemma read_map_attrib_tilesets:
  "read_map_attrib r bp = Inr m0 \<Longrightarrow> map_tilesets m0 = []"
  by (auto simp: read_map_attrib_def and_then_eq_Inr)

lemma two_tilesets_read:
  "read_map ref_lib (two_tilesets_tree ''3'') None = Inr two_tilesets_map"
  by code_simp

lemma two_tilesets_rejected:
  "read_map ref_lib (two_tilesets_tree ''2'') None = Inl (AssertionError [])"
  by code_simp

text \<open>
  C7. During a read of a map, every \<open>tileset\<close> node, in the order of the document, is
  checked: the \<open>firstgid\<close> parsed from its markup equals the first global tile ID
  computed for it, which is 1 plus the sum of the tile counts of the tilesets before it;
  when the two differ the read fails. So whenever \<open>read_map\<close> returns a map, its
  tilesets are the tilesets read from the \<open>tileset\<close> nodes, one for one and in order,
  and the \<open>firstgid\<close> of the \<open>i\<close>-th node is that sum plus 1.
\<close>

theorem tileset_first_gid_checked:
  assumes "read_map lib r bp = Inr m"
    and "i < length (tileset_elems r)"
  shows "length (map_tilesets m) = length (tileset_elems r) \<and>
         read_tileset lib (tileset_elems r ! i) bp = Inr (map_tilesets m ! i) \<and>
         markup_first_gid (tileset_elems r ! i) = Inr (first_gid lib (map_tilesets m) i) \<and>
         first_gid lib (map_tilesets m) i
           = 1 + sum_list (map (len_tileset lib) (take i (map_tilesets m)))"
proof -
  from assms(1) obtain m0 where m0: "read_map_attrib r bp = Inr m0"
    and c: "read_map_children lib bp (children r) m0 = Inr m"
    by (auto simp: read_map_def and_then_eq_Inr)
  from read_map_children_tilesets [OF c] read_map_attrib_tilesets [OF m0]
  have a: "list_all2 (\<lambda>e t. read_tileset lib e bp = Inr t) (tileset_elems r) (map_tilesets m)"
    and f: "\<forall>j<length (map_tilesets m). ts_read_first_gid (map_tilesets m ! j)
        = Some (1 + sum_list (map (len_tileset lib) (take j (map_tilesets m))))"
    by (auto simp: tileset_elems_def)
  from a have len: "length (map_tilesets m) = length (tileset_elems r)"
    by (simp add: list_all2_lengthD)
  have rt: "read_tileset lib (tileset_elems r ! i) bp = Inr (map_tilesets m ! i)"
    by (rule list_all2_nthD [OF a assms(2)])
  from read_tileset_first_gid [OF rt] f assms(2) len
  have "markup_first_gid (tileset_elems r ! i)
           = Inr (1 + sum_list (map (len_tileset lib) (take i (map_tilesets m))))"
    by auto
  with len rt show ?thesis by (simp add: first_gid_def)
qed

theorem tileset_first_gid_checked_witness:
  "read_map ref_lib (two_tilesets_tree ''3'') None = Inr two_tilesets_map \<and>
   length (tileset_elems (two_tilesets_tree ''3'')) = 2 \<and>
   markup_first_gid (tileset_elems (two_tilesets_tree ''3'') ! 1)
     = Inr (first_gid ref_lib (map_tilesets two_tilesets_map) 1) \<and>
   first_gid ref_lib (map_tilesets two_tilesets_map) 1 = 3"
proof -
  have n: "1 < length (tileset_elems (two_tilesets_tree ''3''))" by code_simp
  have l: "length (tileset_elems (two_tilesets_tree ''3'')) = 2" by code_simp
  have g: "first_gid ref_lib (map_tilesets two_tilesets_map) 1 = 3" by code_simp
  from tileset_first_gid_checked [OF two_tilesets_read n] two_tilesets_read l g
  show ?thesis by simp
qed

subsection \<open>Determinism of writing\<close>










subsection \<open>Round trip\<close>

text \<open>
  The scenario's map, with its zlib-compressed tile layer and its object layer, and a
  map whose tileset image has the transparent colour (255, 0, 0) are read back as they
  were written.
\<close>

lemma round_trip_scenario:
  "write_then_read ref_lib (\<lambda>i. 0) scenario_map None = Inr scenario_map"
  by code_simp

lemma round_trip_keeps_red:
  "write_then_read ref_lib (\<lambda>i. 0) (tinted_map (255, 0, 0)) None = Inr (tinted_map (255, 0, 0))"
  by code_simp

text \<open>
  C1. Reading back the tree written for a document is claimed to give the document
  again. \<open>write_image\<close> writes the transparent colour of a tileset's image with \<open>to_rgb\<close>,
  which pads a byte below 16 on the right, and \<open>read_image\<close> reads it with \<open>from_rgb\<close>:
  the map whose image has the transparent colour (5, 0, 0) is written with
  \<open>trans="500000"\<close> and read back with the colour (80, 0, 0).
\<close>

theorem round_trip_changes_transparent_colour:
  "write_then_read ref_lib (\<lambda>i. 0) (tinted_map (5, 0, 0)) None = Inr (tinted_map (80, 0, 0)) \<and>
   write_then_read ref_lib (\<lambda>i. 0) (tinted_map (5, 0, 0)) None \<noteq> Inr (tinted_map (5, 0, 0))"
  by code_simp

end
